theory Spec2Isabelle
  imports Complex_Main
begin

chapter \<open>The block tree and its compilers\<close>

text \<open>
  A model of the block tree of the playground, of the handlers of \<^verbatim>\<open>DraggableBlock\<close>
  that edit it, and of the two compilers from block trees to condition documents
  that the repository holds: \<^verbatim>\<open>blockToJson\<close> (the first \<^verbatim>\<open>blocksToJson\<close>) and
  \<^verbatim>\<open>processBlock\<close> (the second \<^verbatim>\<open>blocksToJson\<close>). Definitions come first, then the
  statements about them.
\<close>

section \<open>JavaScript values\<close>

text \<open>
  A JavaScript number: an IEEE double. The model keeps the mathematical value
  (a rational) and the special values; rounding to 53 bits and the sign of zero are
  not modelled.
\<close>

datatype jsnum = NaN | Num rat | PosInfinity | NegInfinity

text \<open>A JSON value, as \<^verbatim>\<open>JSON.parse\<close> returns it and as \<^verbatim>\<open>unknown\<close> fields hold it.\<close>

datatype json =
    JNull
  | JBool bool
  | JNumber jsnum
  | JString string
  | JArray "json list"
  | JObject "(string \<times> json) list"

text \<open>Truthiness of a JSON value (\<^verbatim>\<open>if (x)\<close>, \<^verbatim>\<open>x || y\<close>).\<close>

fun truthy :: "json \<Rightarrow> bool" where
  "truthy JNull = False"
| "truthy (JBool b) = b"
| "truthy (JNumber n) = (n \<noteq> NaN \<and> n \<noteq> Num 0)"
| "truthy (JString s) = (s \<noteq> [])"
| "truthy (JArray xs) = True"
| "truthy (JObject kvs) = True"

text \<open>
  An optional string (\<^verbatim>\<open>string | undefined\<close>) is truthy when it is present and
  not empty; \<^verbatim>\<open>a || b\<close> on optional strings returns the first operand when it is
  truthy and the second otherwise.
\<close>

definition truthyStr :: "string option \<Rightarrow> bool" where
  "truthyStr v = (case v of None \<Rightarrow> False | Some s \<Rightarrow> s \<noteq> [])"

definition orElse :: "string option \<Rightarrow> string option \<Rightarrow> string option" where
  "orElse a b = (if truthyStr a then a else b)"

definition orDefault :: "string option \<Rightarrow> string \<Rightarrow> string" where
  "orDefault a d = (case a of None \<Rightarrow> d | Some s \<Rightarrow> if s = [] then d else s)"

subsection \<open>parseInt and number printing\<close>

definition isWhiteSpace :: "char \<Rightarrow> bool" where
  "isWhiteSpace c = (c \<in> set [CHR 0x09, CHR 0x0A, CHR 0x0B, CHR 0x0C, CHR 0x0D, CHR 0x20])"

definition digitTable :: "(char \<times> nat) list" where
  "digitTable =
    [(CHR ''0'', 0), (CHR ''1'', 1), (CHR ''2'', 2), (CHR ''3'', 3), (CHR ''4'', 4),
     (CHR ''5'', 5), (CHR ''6'', 6), (CHR ''7'', 7), (CHR ''8'', 8), (CHR ''9'', 9),
     (CHR ''a'', 10), (CHR ''b'', 11), (CHR ''c'', 12), (CHR ''d'', 13), (CHR ''e'', 14),
     (CHR ''f'', 15), (CHR ''A'', 10), (CHR ''B'', 11), (CHR ''C'', 12), (CHR ''D'', 13),
     (CHR ''E'', 14), (CHR ''F'', 15)]"

text \<open>The value of a character as a digit of the given radix, if it is one.\<close>

definition digitVal :: "nat \<Rightarrow> char \<Rightarrow> nat option" where
  "digitVal radix c =
    (case map_of digitTable c of
       None \<Rightarrow> None
     | Some d \<Rightarrow> if d < radix then Some d else None)"

text \<open>
  The longest prefix of radix digits, read as a number, with the count of digits
  read: the accumulator loop of the number parser.
\<close>

fun readDigits :: "nat \<Rightarrow> nat \<Rightarrow> nat \<Rightarrow> string \<Rightarrow> nat \<times> nat" where
  "readDigits radix acc cnt [] = (acc, cnt)"
| "readDigits radix acc cnt (c # cs) =
    (case digitVal radix c of
       None \<Rightarrow> (acc, cnt)
     | Some d \<Rightarrow> readDigits radix (acc * radix + d) (Suc cnt) cs)"

text \<open>
  \<^verbatim>\<open>parseInt(s)\<close> with no radix argument (ECMAScript): leading white space is
  skipped, a sign is read, a prefix \<^verbatim>\<open>0x\<close> or \<^verbatim>\<open>0X\<close> selects radix 16, the
  longest prefix of digits is the value, and no digit at all gives \<^verbatim>\<open>NaN\<close>.
  Strings are strings of ASCII characters: the white space is tab, line feed,
  vertical tab, form feed, carriage return and space.
\<close>

definition parseInt :: "string \<Rightarrow> jsnum" where
  "parseInt s =
    (let t = dropWhile isWhiteSpace s;
         neg = (t \<noteq> [] \<and> hd t = CHR ''-'');
         u = (if t \<noteq> [] \<and> (hd t = CHR ''-'' \<or> hd t = CHR ''+'') then tl t else t);
         hex = (take 2 u = ''0x'' \<or> take 2 u = ''0X'');
         (n, cnt) = (if hex then readDigits 16 0 0 (drop 2 u) else readDigits 10 0 0 u)
     in if cnt = 0 then NaN
        else Num (of_int (if neg then - int n else int n)))"

definition digitChar :: "nat \<Rightarrow> char" where
  "digitChar d = ''0123456789'' ! d"

text \<open>A non-negative integer in a template literal: its decimal digits.\<close>

fun showNat :: "nat \<Rightarrow> string" where
  "showNat n = (if n < 10 then [digitChar n] else showNat (n div 10) @ [digitChar (n mod 10)])"

declare showNat.simps [simp del]

definition showInt :: "int \<Rightarrow> string" where
  "showInt i = (if i < 0 then CHR ''-'' # showNat (nat (- i)) else showNat (nat i))"

section \<open>The block model\<close>

text \<open>
  Modelled from the spec: the declarations of \<^verbatim>\<open>Block\<close> and \<^verbatim>\<open>BlockInput\<close>
  (\<^verbatim>\<open>BlockTypes\<close>) are not among the source files. The fields are those of section 3
  of the specification and those the source reads and writes (\<^verbatim>\<open>label\<close>,
  \<^verbatim>\<open>inputType\<close>, \<^verbatim>\<open>isTemplate\<close>, the \<^verbatim>\<open>value\<close> of a block), with the types the casts of
  the source give them; fields that only the rendering reads are left out. Every
  optional field is an \<open>option\<close>. The two types are recursive in each other, so
  they are datatypes with selectors instead of records.
\<close>

datatype blockType = Condition | Operator | ValueBlock

record returnValueTest =
  rvt_comparator :: string
  rvt_value :: json

record properties =
  conditionType :: "string option"
  p_method :: "string option"
  p_operator :: "string option"
  p_parameters :: "json option"
  standardContractType :: "string option"
  p_returnValueTest :: "returnValueTest option"
  maxInputs :: "int option"
  parameterCount :: "int option"
  canAddParameters :: "bool option"

datatype block =
  Block
    (block_id: string)
    (block_type: blockType)
    (category: "string option")
    (block_label: string)
    (props: "properties option")
    (inputs: "blockInput list option")
    (block_value: "string option")
    (isTemplate: "bool option")
and blockInput =
  BlockInput
    (input_id: string)
    (input_type: "blockType list")
    (input_label: string)
    (input_value: "string option")
    (comparator: "string option")
    (inputType: "string option")
    (connected: "block option")

section \<open>The condition document\<close>

text \<open>
  Modelled from the spec: the types of the condition document (\<^verbatim>\<open>types/taco\<close>) are
  not among the source files. The four variants and their fields are those of
  section 3 of the specification and of the object literals of the two compilers; a
  chain is a number, and \<^verbatim>\<open>parameters\<close> holds whatever JSON value the compiler puts
  there.
\<close>

datatype condition =
    TimeCondition
      (chain: jsnum) (cond_method: string) (returnValueTest: returnValueTest)
  | RpcCondition
      (chain: jsnum) (cond_method: string) (parameters: json)
      (returnValueTest: returnValueTest)
  | ContractCondition
      (chain: jsnum) (contractAddress: string) (cond_method: string) (parameters: json)
      (cond_standardContractType: "string option") (returnValueTest: returnValueTest)
  | CompoundCondition
      (cond_operator: string) (operands: "condition list")

section \<open>The first compiler: blockToJson\<close>

definition isValidChainId :: "jsnum \<Rightarrow> bool" where
  "isValidChainId chainId = (chainId \<in> set [Num 1, Num 137, Num 80002, Num 11155111])"

definition parseChainId :: "string \<Rightarrow> jsnum" where
  "parseChainId v =
    (let parsed = parseInt v in
     if isValidChainId parsed then parsed else Num 11155111)"

text \<open>\<^verbatim>\<open>block.inputs?.find(input => input.id === name)\<close>.\<close>

definition findInput :: "string \<Rightarrow> block \<Rightarrow> blockInput option" where
  "findInput name b =
    (case inputs b of
       None \<Rightarrow> None
     | Some ins \<Rightarrow> List.find (\<lambda>i. input_id i = name) ins)"

text \<open>\<^verbatim>\<open>input?.value\<close> of a slot that may be missing.\<close>

definition slotValue :: "blockInput option \<Rightarrow> string option" where
  "slotValue s = (case s of None \<Rightarrow> None | Some i \<Rightarrow> input_value i)"

definition slotComparator :: "blockInput option \<Rightarrow> string option" where
  "slotComparator s = (case s of None \<Rightarrow> None | Some i \<Rightarrow> comparator i)"

text \<open>The chain of a condition: the default, replaced when the chain slot is set.\<close>

definition chainOf :: "block \<Rightarrow> jsnum" where
  "chainOf b =
    (let chainInput = findInput ''chain'' b in
     if truthyStr (slotValue chainInput)
     then parseChainId (the (slotValue chainInput))
     else Num 11155111)"

text \<open>
  The return value test read from a numeric slot: the comparator of the slot, or
  \<^verbatim>\<open>>=\<close>, and \<^verbatim>\<open>parseInt\<close> of the slot's value.
\<close>

definition slotTest :: "blockInput option \<Rightarrow> returnValueTest" where
  "slotTest s =
    \<lparr> rvt_comparator = orDefault (slotComparator s) ''>='',
      rvt_value = JNumber (parseInt (the (slotValue s))) \<rparr>"

definition propOf :: "(properties \<Rightarrow> 'a option) \<Rightarrow> block \<Rightarrow> 'a option" where
  "propOf f b = (case props b of None \<Rightarrow> None | Some p \<Rightarrow> f p)"

definition timeToJson :: "block \<Rightarrow> condition" where
  "timeToJson b =
    (let timestampInput = findInput ''minTimestamp'' b in
     TimeCondition (chainOf b) ''blocktime''
       (if truthyStr (slotValue timestampInput) then slotTest timestampInput
        else \<lparr> rvt_comparator = ''>='', rvt_value = JNumber (Num 0) \<rparr>))"

definition rpcToJson :: "block \<Rightarrow> condition" where
  "rpcToJson b =
    (let balanceInput = findInput ''minBalance'' b in
     RpcCondition (chainOf b)
       (orDefault (propOf p_method b) ''eth_getBalance'')
       (case propOf p_parameters b of
          None \<Rightarrow> JArray [JString '':userAddress'', JString ''latest'']
        | Some ps \<Rightarrow>
            if truthy ps then ps
            else JArray [JString '':userAddress'', JString ''latest''])
       (if truthyStr (slotValue balanceInput) then slotTest balanceInput
        else \<lparr> rvt_comparator = ''>='', rvt_value = JString ''0'' \<rparr>))"

definition contractToJson :: "block \<Rightarrow> condition" where
  "contractToJson b =
    (let contractInput = findInput ''contractAddress'' b;
         tokenAmountInput = findInput ''tokenAmount'' b in
     ContractCondition (chainOf b)
       (orDefault (slotValue contractInput) '''')
       (orDefault (propOf p_method b) ''balanceOf'')
       (case propOf p_parameters b of
          None \<Rightarrow> JArray [JString '':userAddress'']
        | Some ps \<Rightarrow> if truthy ps then ps else JArray [JString '':userAddress''])
       (if truthyStr (propOf standardContractType b)
        then propOf standardContractType b else None)
       (if truthyStr (slotValue tokenAmountInput) then slotTest tokenAmountInput
        else (case propOf p_returnValueTest b of
                None \<Rightarrow> \<lparr> rvt_comparator = ''>='', rvt_value = JString ''0'' \<rparr>
              | Some t \<Rightarrow> t)))"

text \<open>
  \<^verbatim>\<open>blockToJson\<close>. The operands of an operator are the compiled connected children
  of its slots, in slot order, without those that compile to \<^verbatim>\<open>null\<close>
  (\<^verbatim>\<open>filter(input => input.connected).map(blockToJson).filter(Boolean)\<close>);
  \<open>operandsOf\<close> walks the slot list.
\<close>

fun blockToJson :: "block \<Rightarrow> condition option"
  and operandsOf :: "blockInput list \<Rightarrow> condition list" where
  "blockToJson (Block bid ty cat lbl ps ins v tmpl) =
    (let b = Block bid ty cat lbl ps ins v tmpl in
     if ty = Operator then
       (case ins of
          None \<Rightarrow> None
        | Some slots \<Rightarrow>
            (let ops = operandsOf slots in
             if ops = [] then None
             else Some (CompoundCondition (orDefault (propOf p_operator b) ''and'') ops)))
     else if ty = Condition then
       (if \<not> truthyStr (propOf conditionType b) then None
        else if propOf conditionType b = Some ''time'' then Some (timeToJson b)
        else if propOf conditionType b = Some ''rpc'' then Some (rpcToJson b)
        else if propOf conditionType b = Some ''contract'' then Some (contractToJson b)
        else None)
     else None)"
| "operandsOf [] = []"
| "operandsOf (BlockInput iid ity il iv ic it None # rest) = operandsOf rest"
| "operandsOf (BlockInput iid ity il iv ic it (Some child) # rest) =
    (case blockToJson child of
       None \<Rightarrow> operandsOf rest
     | Some c \<Rightarrow> c # operandsOf rest)"

text \<open>
  \<^verbatim>\<open>blocksToJson\<close> of the first compiler: the root is the first condition or
  operator block that no operator block of the workspace holds in a slot.
\<close>

definition holdsChild :: "string \<Rightarrow> block \<Rightarrow> bool" where
  "holdsChild bid b =
    (case inputs b of
       None \<Rightarrow> False
     | Some ins \<Rightarrow>
         list_ex (\<lambda>i. case connected i of None \<Rightarrow> False | Some c \<Rightarrow> block_id c = bid) ins)"

definition blocksToJson :: "block list \<Rightarrow> condition option" where
  "blocksToJson blocks =
    (if blocks = [] then None
     else
       (case List.find
               (\<lambda>b. (block_type b = Condition \<or> block_type b = Operator) \<and>
                    \<not> list_ex (\<lambda>b'. block_type b' = Operator \<and> holdsChild (block_id b) b') blocks)
               blocks of
          None \<Rightarrow> None
        | Some rootBlock \<Rightarrow> blockToJson rootBlock))"

section \<open>The second compiler: processBlock\<close>

text \<open>
  \<^verbatim>\<open>JSON.parse\<close> (\<open>None\<close> when it throws) and \<^verbatim>\<open>parseFloat\<close> are builtins of the
  language; the compiler takes them as given.
\<close>

record builtins =
  JSON_parse :: "string \<Rightarrow> json option"
  parseFloat :: "string \<Rightarrow> jsnum"

datatype jsError = TypeError

record conditionBuilder =
  b_conditionType :: "string option"
  b_chain :: "jsnum option"
  b_contractAddress :: "string option"
  b_method :: "string option"
  b_parameters :: "json option"
  b_returnValueTest :: "returnValueTest option"
  b_functionAbi :: "json option"

definition emptyBuilder :: conditionBuilder where
  "emptyBuilder =
    \<lparr> b_conditionType = None, b_chain = None, b_contractAddress = None, b_method = None,
      b_parameters = None, b_returnValueTest = None, b_functionAbi = None \<rparr>"

text \<open>\<^verbatim>\<open>String.prototype.trim\<close>, on the white space of ASCII.\<close>

definition trim :: "string \<Rightarrow> string" where
  "trim s = rev (dropWhile isWhiteSpace (rev (dropWhile isWhiteSpace s)))"

text \<open>\<^verbatim>\<open>input.value || input.connected?.value\<close>.\<close>

definition effectiveValue :: "blockInput \<Rightarrow> string option" where
  "effectiveValue i =
    orElse (input_value i) (case connected i of None \<Rightarrow> None | Some c \<Rightarrow> block_value c)"

definition truthyOpt :: "json option \<Rightarrow> bool" where
  "truthyOpt j = (case j of None \<Rightarrow> False | Some x \<Rightarrow> truthy x)"

definition truthyNum :: "jsnum option \<Rightarrow> bool" where
  "truthyNum n = (case n of None \<Rightarrow> False | Some x \<Rightarrow> x \<noteq> NaN \<and> x \<noteq> Num 0)"

text \<open>
  The \<^verbatim>\<open>tokenId\<close> case: an unset (or falsy) \<^verbatim>\<open>builder.parameters\<close> becomes the
  empty array, and \<^verbatim>\<open>.map\<close> replaces \<^verbatim>\<open>':tokenId'\<close> by the value. A truthy
  value that is not an array has no \<^verbatim>\<open>map\<close>: the call throws.
\<close>

definition replaceTokenId :: "string \<Rightarrow> json option \<Rightarrow> jsError + json" where
  "replaceTokenId v ps =
    (if \<not> truthyOpt ps then Inr (JArray [])
     else
       (case the ps of
          JArray xs \<Rightarrow>
            Inr (JArray (map (\<lambda>p. if p = JString '':tokenId'' then JString v else p) xs))
        | _ \<Rightarrow> Inl TypeError))"

text \<open>One round of the \<^verbatim>\<open>forEach\<close> over the inputs of a condition block.\<close>

definition stepInput ::
  "builtins \<Rightarrow> block \<Rightarrow> blockInput \<Rightarrow> conditionBuilder \<Rightarrow> jsError + conditionBuilder" where
  "stepInput env b i bld =
    (let v = effectiveValue i in
     if \<not> truthyStr v then Inr bld
     else
       (let s = the v; name = input_id i in
        if name = ''contractAddress'' then Inr (bld\<lparr>b_contractAddress := Some (trim s)\<rparr>)
        else if name = ''chain'' then
          (let chainId = parseInt s in
           if chainId \<noteq> NaN \<and> isValidChainId chainId
           then Inr (bld\<lparr>b_chain := Some chainId\<rparr>) else Inr bld)
        else if name = ''minBalance'' then
          (let balance = parseFloat env s in
           if balance \<noteq> NaN
           then Inr (bld\<lparr>b_returnValueTest := Some
                  \<lparr> rvt_comparator =
                      (if propOf p_method b = Some ''eth_getBalance'' then ''>='' else ''>''),
                    rvt_value = JNumber balance \<rparr>\<rparr>)
           else Inr bld)
        else if name = ''timestamp'' \<or> name = ''minTimestamp'' then
          (let timestamp = parseInt s in
           if timestamp \<noteq> NaN
           then Inr (bld\<lparr>b_conditionType := Some ''time'', b_method := Some ''blocktime'',
                  b_returnValueTest := Some
                    \<lparr> rvt_comparator = ''>='', rvt_value = JNumber timestamp \<rparr>\<rparr>)
           else Inr bld)
        else if name = ''tokenId'' then
          (case replaceTokenId s (b_parameters bld) of
             Inl e \<Rightarrow> Inl e
           | Inr ps \<Rightarrow> Inr (bld\<lparr>b_parameters := Some ps\<rparr>))
        else if name = ''method'' then Inr (bld\<lparr>b_method := Some s\<rparr>)
        else if name = ''parameters'' then
          (case JSON_parse env s of
             None \<Rightarrow> Inr bld
           | Some j \<Rightarrow> Inr (bld\<lparr>b_parameters := Some j\<rparr>))
        else if name = ''functionAbi'' then
          (case JSON_parse env s of
             None \<Rightarrow> Inr bld
           | Some j \<Rightarrow> Inr (bld\<lparr>b_functionAbi := Some j\<rparr>))
        else Inr bld))"

fun forEachInput ::
  "builtins \<Rightarrow> block \<Rightarrow> blockInput list \<Rightarrow> conditionBuilder \<Rightarrow> jsError + conditionBuilder" where
  "forEachInput env b [] bld = Inr bld"
| "forEachInput env b (i # rest) bld =
    (case stepInput env b i bld of
       Inl e \<Rightarrow> Inl e
     | Inr bld' \<Rightarrow> forEachInput env b rest bld')"

definition testOr :: "returnValueTest option \<Rightarrow> string \<Rightarrow> returnValueTest" where
  "testOr t cmp =
    (case t of
       None \<Rightarrow> \<lparr> rvt_comparator = cmp, rvt_value = JNumber (Num 0) \<rparr>
     | Some x \<Rightarrow> x)"

text \<open>What a filled builder is turned into: the three \<^verbatim>\<open>if\<close>s after the loop.\<close>

definition buildCondition :: "block \<Rightarrow> conditionBuilder \<Rightarrow> condition option" where
  "buildCondition b bld =
    (if propOf p_method b = Some ''eth_getBalance'' \<and> truthyNum (b_chain bld) then
       Some (RpcCondition (the (b_chain bld)) ''eth_getBalance''
               (JArray [JString '':userAddress'', JString ''latest''])
               (testOr (b_returnValueTest bld) ''>=''))
     else if propOf conditionType b = Some ''contract'' \<and> truthyNum (b_chain bld)
               \<and> truthyStr (b_method bld) then
       Some (ContractCondition (the (b_chain bld))
               (orDefault (b_contractAddress bld) [])
               (the (b_method bld))
               (if truthyOpt (b_parameters bld) then the (b_parameters bld) else JArray [])
               (propOf standardContractType b)
               (testOr (b_returnValueTest bld) ''>''))
     else if b_conditionType bld = Some ''time'' \<and> truthyNum (b_chain bld) then
       Some (TimeCondition (the (b_chain bld)) ''blocktime''
               (testOr (b_returnValueTest bld) ''>=''))
     else None)"

text \<open>
  \<^verbatim>\<open>processBlock\<close>. A block without properties is \<^verbatim>\<open>null\<close>; an operator block is
  the compound of its connected children, compiled in slot order, without those that
  are \<^verbatim>\<open>null\<close>; any other block goes through the builder. An exception of a child
  ends the whole call.
\<close>

fun processBlock :: "builtins \<Rightarrow> block \<Rightarrow> jsError + condition option"
  and processConnected :: "builtins \<Rightarrow> blockInput list \<Rightarrow> jsError + condition list" where
  "processBlock env (Block bid ty cat lbl ps ins v tmpl) =
    (let b = Block bid ty cat lbl ps ins v tmpl in
     if ps = None then Inr None
     else if ty = Operator then
       (case ins of
          None \<Rightarrow> Inr (Some (CompoundCondition (orDefault (propOf p_operator b) ''and'') []))
        | Some slots \<Rightarrow>
            (case processConnected env slots of
               Inl e \<Rightarrow> Inl e
             | Inr ops \<Rightarrow>
                 Inr (Some (CompoundCondition (orDefault (propOf p_operator b) ''and'') ops))))
     else
       (case forEachInput env b (case ins of None \<Rightarrow> [] | Some slots \<Rightarrow> slots) emptyBuilder of
          Inl e \<Rightarrow> Inl e
        | Inr bld \<Rightarrow> Inr (buildCondition b bld)))"
| "processConnected env [] = Inr []"
| "processConnected env (BlockInput iid ity il iv ic it None # rest) =
    processConnected env rest"
| "processConnected env (BlockInput iid ity il iv ic it (Some child) # rest) =
    (case processBlock env child of
       Inl e \<Rightarrow> Inl e
     | Inr r \<Rightarrow>
         (case processConnected env rest of
            Inl e \<Rightarrow> Inl e
          | Inr rs \<Rightarrow> Inr (case r of None \<Rightarrow> rs | Some c \<Rightarrow> c # rs)))"

text \<open>
  \<^verbatim>\<open>blocksToJson\<close> of the second compiler: every block that no block of the
  workspace holds in a slot is top-level; a single top-level block is the result, and
  several are joined by \<^verbatim>\<open>and\<close>.
\<close>

fun processAll :: "builtins \<Rightarrow> block list \<Rightarrow> jsError + condition option list" where
  "processAll env [] = Inr []"
| "processAll env (b # bs) =
    (case processBlock env b of
       Inl e \<Rightarrow> Inl e
     | Inr r \<Rightarrow>
         (case processAll env bs of
            Inl e \<Rightarrow> Inl e
          | Inr rs \<Rightarrow> Inr (r # rs)))"

definition topLevelBlocks :: "block list \<Rightarrow> block list" where
  "topLevelBlocks blocks =
    filter (\<lambda>b. \<not> list_ex (\<lambda>b'. holdsChild (block_id b) b') blocks) blocks"

definition blocksToJson_v2 :: "builtins \<Rightarrow> block list \<Rightarrow> jsError + condition option" where
  "blocksToJson_v2 env blocks =
    (let top = topLevelBlocks blocks in
     if length top = 0 then Inr None
     else if length top = 1 then processBlock env (hd top)
     else
       (case processAll env top of
          Inl e \<Rightarrow> Inl e
        | Inr rs \<Rightarrow>
            (let conditions = map the (filter (\<lambda>r. r \<noteq> None) rs) in
             if length conditions = 0 then Inr None
             else if length conditions = 1 then Inr (Some (hd conditions))
             else Inr (Some (CompoundCondition ''and'' conditions)))))"

section \<open>The block tree editor\<close>

text \<open>
  Every handler of \<^verbatim>\<open>DraggableBlock\<close> works on a deep copy of its block
  (\<^verbatim>\<open>JSON.parse(JSON.stringify(block))\<close>), changes the copy and passes it to
  \<^verbatim>\<open>onBlockUpdate\<close>. A handler is modelled as a function from the block to the block
  it passes on, \<open>None\<close> when it returns without calling \<^verbatim>\<open>onBlockUpdate\<close>.
  \<open>hasUpdate\<close> says that the \<^verbatim>\<open>onBlockUpdate\<close> property is there, and \<open>now\<close> is
  what \<^verbatim>\<open>Date.now()\<close> returns during the call.
\<close>

subsection \<open>Field updates\<close>

fun setInputs :: "blockInput list option \<Rightarrow> block \<Rightarrow> block" where
  "setInputs ins (Block bid ty cat lbl ps old v tmpl) = Block bid ty cat lbl ps ins v tmpl"

fun setProps :: "properties option \<Rightarrow> block \<Rightarrow> block" where
  "setProps ps (Block bid ty cat lbl old ins v tmpl) = Block bid ty cat lbl ps ins v tmpl"

fun setIsTemplate :: "bool option \<Rightarrow> block \<Rightarrow> block" where
  "setIsTemplate tmpl (Block bid ty cat lbl ps ins v old) = Block bid ty cat lbl ps ins v tmpl"

fun setInputValue :: "string option \<Rightarrow> blockInput \<Rightarrow> blockInput" where
  "setInputValue v (BlockInput iid ity il old ic it con) = BlockInput iid ity il v ic it con"

fun setLabel :: "string \<Rightarrow> blockInput \<Rightarrow> blockInput" where
  "setLabel il (BlockInput iid ity old iv ic it con) = BlockInput iid ity il iv ic it con"

fun setComparator :: "string option \<Rightarrow> blockInput \<Rightarrow> blockInput" where
  "setComparator ic (BlockInput iid ity il iv old it con) = BlockInput iid ity il iv ic it con"

fun setInputType :: "string option \<Rightarrow> blockInput \<Rightarrow> blockInput" where
  "setInputType it (BlockInput iid ity il iv ic old con) = BlockInput iid ity il iv ic it con"

fun setConnected :: "block option \<Rightarrow> blockInput \<Rightarrow> blockInput" where
  "setConnected con (BlockInput iid ity il iv ic it old) = BlockInput iid ity il iv ic it con"

text \<open>
  \<^verbatim>\<open>const x = xs.find(p); if (x) { x.field = ... }\<close> changes the first element that
  satisfies \<open>p\<close>, in place.
\<close>

fun updateFirst :: "('a \<Rightarrow> bool) \<Rightarrow> ('a \<Rightarrow> 'a) \<Rightarrow> 'a list \<Rightarrow> 'a list" where
  "updateFirst p f [] = []"
| "updateFirst p f (x # xs) = (if p x then f x # xs else x # updateFirst p f xs)"

definition hasId :: "string \<Rightarrow> blockInput \<Rightarrow> bool" where
  "hasId name i = (input_id i = name)"

definition isConnected :: "blockInput \<Rightarrow> bool" where
  "isConnected i = (connected i \<noteq> None)"

subsection \<open>handleDrop\<close>

text \<open>The dropped item, copied: not a template, every input with a value and an input type.\<close>

definition initInput :: "blockInput \<Rightarrow> blockInput" where
  "initInput i =
    setInputType (Some (orDefault (inputType i) ''text''))
      (setInputValue (Some (orDefault (input_value i) [])) i)"

definition droppedBlock :: "block \<Rightarrow> block" where
  "droppedBlock item =
    (let d = setIsTemplate (Some False) item in
     case inputs d of
       None \<Rightarrow> d
     | Some ins \<Rightarrow> setInputs (Some (map initInput ins)) d)"

definition newSlot :: "nat \<Rightarrow> blockInput" where
  "newSlot now =
    BlockInput (''condition-'' @ showNat now) [Condition, Operator] ''Add Condition''
      None None None None"

definition connectedCount :: "blockInput list \<Rightarrow> nat" where
  "connectedCount ins = length (filter isConnected ins)"

text \<open>
  The growth step of an operator: a new empty slot is pushed when the slot dropped
  into is the last one and \<^verbatim>\<open>maxInputs\<close> is unset (or zero) or above the count of
  connected slots.
\<close>

definition mayGrow :: "properties option \<Rightarrow> nat \<Rightarrow> bool" where
  "mayGrow ps cnt =
    (case (case ps of None \<Rightarrow> None | Some p \<Rightarrow> maxInputs p) of
       None \<Rightarrow> True
     | Some m \<Rightarrow> m = 0 \<or> int cnt < m)"

definition grow :: "nat \<Rightarrow> string \<Rightarrow> properties option \<Rightarrow> blockInput list \<Rightarrow> blockInput list" where
  "grow now inputId ps ins =
    (if ins \<noteq> [] \<and> input_id (last ins) = inputId \<and> mayGrow ps (connectedCount ins)
     then ins @ [newSlot now] else ins)"

text \<open>A value item: its value is written into the slot, directly or one level down.\<close>

definition dropValue :: "block \<Rightarrow> string \<Rightarrow> block \<Rightarrow> string option \<Rightarrow> block option" where
  "dropValue b inputId item parentInputId =
    (case inputs b of
       None \<Rightarrow> None
     | Some ins \<Rightarrow>
         if truthyStr parentInputId then
           (case List.find (hasId (the parentInputId)) ins of
              None \<Rightarrow> None
            | Some parentInput \<Rightarrow>
                (case connected parentInput of
                   None \<Rightarrow> None
                 | Some connectedBlock \<Rightarrow>
                     (case inputs connectedBlock of
                        None \<Rightarrow> None
                      | Some cins \<Rightarrow>
                          (case List.find (hasId inputId) cins of
                             None \<Rightarrow> None
                           | Some targetInput \<Rightarrow>
                               Some (setInputs
                                 (Some (updateFirst (hasId (the parentInputId))
                                    (setConnected (Some (setInputs
                                       (Some (updateFirst (hasId inputId)
                                          (setInputValue (block_value item)) cins))
                                       connectedBlock)))
                                    ins))
                                 b)))))
         else
           (case List.find (hasId inputId) ins of
              None \<Rightarrow> None
            | Some input \<Rightarrow>
                Some (setInputs
                  (Some (updateFirst (hasId inputId) (setInputValue (block_value item)) ins))
                  b)))"

text \<open>A block dropped into a slot of the block connected at \<open>parentInputId\<close>.\<close>

definition dropNested :: "block \<Rightarrow> nat \<Rightarrow> string \<Rightarrow> block \<Rightarrow> string \<Rightarrow> block option" where
  "dropNested b now inputId item parentInputId =
    (case inputs b of
       None \<Rightarrow> None
     | Some ins \<Rightarrow>
         (case List.find (hasId parentInputId) ins of
            None \<Rightarrow> None
          | Some parentInput \<Rightarrow>
              (case connected parentInput of
                 None \<Rightarrow> None
               | Some connectedBlock \<Rightarrow>
                   (case inputs connectedBlock of
                      None \<Rightarrow> None
                    | Some cins \<Rightarrow>
                        (case List.find (hasId inputId) cins of
                           None \<Rightarrow> None
                         | Some targetInput \<Rightarrow>
                             (let cins1 = updateFirst (hasId inputId)
                                            (setConnected (Some (droppedBlock item))) cins;
                                  cins2 = (if block_type connectedBlock = Operator
                                           then grow now inputId (props connectedBlock) cins1
                                           else cins1)
                              in Some (setInputs
                                   (Some (updateFirst (hasId parentInputId)
                                      (setConnected (Some (setInputs (Some cins2) connectedBlock)))
                                      ins))
                                   b)))))))"

text \<open>
  A block dropped into a slot of an operator block: the slot is connected (an
  occupied slot is replaced), labelled with the count of connected slots, and the
  operator grows.
\<close>

definition dropOperator :: "block \<Rightarrow> nat \<Rightarrow> string \<Rightarrow> block \<Rightarrow> block option" where
  "dropOperator b now inputId item =
    (case inputs b of
       None \<Rightarrow> None
     | Some ins \<Rightarrow>
         (case List.find (hasId inputId) ins of
            None \<Rightarrow> None
          | Some input \<Rightarrow>
              (let ins1 = updateFirst (hasId inputId)
                            (setConnected (Some (droppedBlock item))) ins;
                   ins2 = updateFirst (hasId inputId)
                            (setLabel (''Condition '' @ showNat (connectedCount ins1))) ins1
               in Some (setInputs (Some (grow now inputId (props b) ins2)) b))))"

definition handleDrop ::
  "bool \<Rightarrow> block \<Rightarrow> nat \<Rightarrow> string \<Rightarrow> block \<Rightarrow> string option \<Rightarrow> block option" where
  "handleDrop hasUpdate b now inputId item parentInputId =
    (if \<not> hasUpdate then None
     else
       (case (if block_type item = ValueBlock
              then dropValue b inputId item parentInputId else None) of
          Some updated \<Rightarrow> Some updated
        | None \<Rightarrow>
            if truthyStr parentInputId then
              dropNested b now inputId item (the parentInputId)
            else if block_type b = Operator then
              dropOperator b now inputId item
            else if block_type b = Condition then
              (case inputs b of
                 None \<Rightarrow> None
               | Some ins \<Rightarrow>
                   (case List.find (hasId inputId) ins of
                      None \<Rightarrow> None
                    | Some input \<Rightarrow>
                        if block_type item = ValueBlock
                        then Some (setInputs
                               (Some (updateFirst (hasId inputId)
                                  (setInputValue (block_value item)) ins))
                               b)
                        else None))
            else None))"

subsection \<open>handleValueChange and handleComparatorChange\<close>

text \<open>
  \<^verbatim>\<open>findAndUpdateInput\<close> follows the path of input ids through the connected
  blocks and writes the value into the addressed slot; \<open>None\<close> is its \<^verbatim>\<open>false\<close>.
\<close>

fun findAndUpdateInput :: "string \<Rightarrow> block \<Rightarrow> string \<Rightarrow> string list \<Rightarrow> block option" where
  "findAndUpdateInput v currentBlock targetInputId [] =
    (case inputs currentBlock of
       None \<Rightarrow> None
     | Some ins \<Rightarrow>
         (case List.find (hasId targetInputId) ins of
            None \<Rightarrow> None
          | Some directInput \<Rightarrow>
              Some (setInputs
                (Some (updateFirst (hasId targetInputId) (setInputValue (Some v)) ins))
                currentBlock)))"
| "findAndUpdateInput v currentBlock targetInputId (nextInputId # path) =
    (case inputs currentBlock of
       None \<Rightarrow> None
     | Some ins \<Rightarrow>
         (case List.find (hasId nextInputId) ins of
            None \<Rightarrow> None
          | Some nextInput \<Rightarrow>
              (case connected nextInput of
                 None \<Rightarrow> None
               | Some child \<Rightarrow>
                   (case findAndUpdateInput v child targetInputId path of
                      None \<Rightarrow> None
                    | Some child' \<Rightarrow>
                        Some (setInputs
                          (Some (updateFirst (hasId nextInputId)
                             (setConnected (Some child')) ins))
                          currentBlock)))))"

definition handleValueChange ::
  "bool \<Rightarrow> bool \<Rightarrow> block \<Rightarrow> string \<Rightarrow> string \<Rightarrow> string list option \<Rightarrow> block option" where
  "handleValueChange hasUpdate isWorkspaceBlock b inputId v parentPath =
    (if \<not> hasUpdate \<or> \<not> isWorkspaceBlock then None
     else
       (case parentPath of
          Some (p # ps) \<Rightarrow> findAndUpdateInput v b inputId (p # ps)
        | _ \<Rightarrow>
            (case inputs b of
               None \<Rightarrow> None
             | Some ins \<Rightarrow>
                 (case List.find (hasId inputId) ins of
                    None \<Rightarrow> None
                  | Some input \<Rightarrow>
                      Some (setInputs
                        (Some (updateFirst (hasId inputId) (setInputValue (Some v)) ins))
                        b)))))"

definition handleComparatorChange ::
  "bool \<Rightarrow> bool \<Rightarrow> block \<Rightarrow> string \<Rightarrow> string \<Rightarrow> block option" where
  "handleComparatorChange hasUpdate isWorkspaceBlock b inputId cmp =
    (if \<not> hasUpdate \<or> \<not> isWorkspaceBlock then None
     else
       (case inputs b of
          None \<Rightarrow> None
        | Some ins \<Rightarrow>
            (case List.find (hasId inputId) ins of
               None \<Rightarrow> None
             | Some input \<Rightarrow>
                 Some (setInputs
                   (Some (updateFirst (hasId inputId) (setComparator (Some cmp)) ins))
                   b))))"

subsection \<open>handleRemoveCondition\<close>

text \<open>
  The slot loses its connection; the operator keeps its connected slots, numbered
  from 1 in their order, and gets one new empty slot at the end. A block that is not
  an operator is passed on as it is.
\<close>

definition relabel :: "blockInput list \<Rightarrow> blockInput list" where
  "relabel ins =
    map (\<lambda>(index, input). setLabel (''Condition '' @ showNat (index + 1)) input)
      (enumerate 0 ins)"

definition handleRemoveCondition :: "bool \<Rightarrow> block \<Rightarrow> nat \<Rightarrow> string \<Rightarrow> block option" where
  "handleRemoveCondition hasUpdate b now inputId =
    (if \<not> hasUpdate then None
     else
       (case inputs b of
          None \<Rightarrow> Some b
        | Some ins \<Rightarrow>
            if block_type b = Operator then
              (let cleared = updateFirst (hasId inputId) (setConnected None) ins;
                   nonEmptyInputs = filter isConnected cleared
               in Some (setInputs (Some (relabel nonEmptyInputs @ [newSlot now])) b))
            else Some b))"

subsection \<open>handleAddParameter\<close>





definition emptyProperties :: properties where
  "emptyProperties =
    \<lparr> conditionType = None, p_method = None, p_operator = None, p_parameters = None,
      standardContractType = None, p_returnValueTest = None, maxInputs = None,
      parameterCount = None, canAddParameters = None \<rparr>"




section \<open>The chain check of the encryption panel\<close>

text \<open>
  \<^verbatim>\<open>getValidChainId\<close>: the chain is looked up among the valid chains, and a chain
  that is not found throws an error with the message below (\<open>Inl\<close>).
\<close>

definition validChains :: "int list" where
  "validChains = [137, 80002, 11155111, 1]"

text \<open>\<^verbatim>\<open>xs.join(sep)\<close>.\<close>

fun joinWith :: "string \<Rightarrow> string list \<Rightarrow> string" where
  "joinWith sep [] = []"
| "joinWith sep [x] = x"
| "joinWith sep (x # y # ys) = x @ sep @ joinWith sep (y # ys)"

definition invalidChainMessage :: string where
  "invalidChainMessage =
    ''Invalid chain ID. Must be one of: '' @ joinWith '', '' (map showInt validChains)"

definition getValidChainId :: "jsnum \<Rightarrow> string + jsnum" where
  "getValidChainId c =
    (case List.find (\<lambda>cid. Num (of_int cid) = c) validChains of
       None \<Rightarrow> Inl invalidChainMessage
     | Some chainId \<Rightarrow>
         if chainId = 0 then Inl invalidChainMessage else Inr (Num (of_int chainId)))"

section \<open>Notions of the specification\<close>

text \<open>The count of empty slots at the end of an input list.\<close>

definition trailingEmpty :: "blockInput list \<Rightarrow> nat" where
  "trailingEmpty ins = length (takeWhile (\<lambda>i. \<not> isConnected i) (rev ins))"

text \<open>
  \<open>valueSetAt path slotId v b b'\<close>: the tree \<open>b'\<close> is the tree \<open>b\<close> with the value \<open>v\<close> in
  the slot \<open>slotId\<close> of the block that \<open>path\<close> leads to, and nothing else changed. A
  path names input ids, from the root down; an id names the first slot that has it.
  The two rules spell out every field of the blocks and slots on the way.
\<close>

inductive valueSetAt :: "string list \<Rightarrow> string \<Rightarrow> string \<Rightarrow> block \<Rightarrow> block \<Rightarrow> bool" where
  here:
    "\<forall>x \<in> set xs. input_id x \<noteq> iid \<Longrightarrow>
     valueSetAt [] iid v
       (Block bid ty cat lbl ps (Some (xs @ BlockInput iid ity il iv ic it con # ys)) bv tmpl)
       (Block bid ty cat lbl ps (Some (xs @ BlockInput iid ity il (Some v) ic it con # ys)) bv tmpl)"
| below:
    "\<forall>x \<in> set xs. input_id x \<noteq> iid \<Longrightarrow>
     valueSetAt path slotId v child child' \<Longrightarrow>
     valueSetAt (iid # path) slotId v
       (Block bid ty cat lbl ps
          (Some (xs @ BlockInput iid ity il iv ic it (Some child) # ys)) bv tmpl)
       (Block bid ty cat lbl ps
          (Some (xs @ BlockInput iid ity il iv ic it (Some child') # ys)) bv tmpl)"

code_pred valueSetAt .

text \<open>A tree without the values of its slots: what an edit of a value must leave alone.\<close>

fun eraseValues :: "block \<Rightarrow> block"
  and eraseSlots :: "blockInput list \<Rightarrow> blockInput list" where
  "eraseValues (Block bid ty cat lbl ps None bv tmpl) = Block bid ty cat lbl ps None bv tmpl"
| "eraseValues (Block bid ty cat lbl ps (Some slots) bv tmpl) =
    Block bid ty cat lbl ps (Some (eraseSlots slots)) bv tmpl"
| "eraseSlots [] = []"
| "eraseSlots (BlockInput iid ity il iv ic it None # rest) =
    BlockInput iid ity il None ic it None # eraseSlots rest"
| "eraseSlots (BlockInput iid ity il iv ic it (Some child) # rest) =
    BlockInput iid ity il None ic it (Some (eraseValues child)) # eraseSlots rest"


text \<open>
  A block of the workspace is held when some block of the workspace has a slot
  connected to a block with its id.
\<close>

definition heldIn :: "block list \<Rightarrow> block \<Rightarrow> bool" where
  "heldIn blocks b =
    (\<exists>b' \<in> set blocks. \<exists>i \<in> set (case inputs b' of None \<Rightarrow> [] | Some slots \<Rightarrow> slots).
       \<exists>c. connected i = Some c \<and> block_id c = block_id b)"

section \<open>Example blocks\<close>

text \<open>
  The blocks the statements below are run on. \<open>plainBuiltins\<close> stands for the
  builtins in runs that never reach them: no example block has a \<^verbatim>\<open>minBalance\<close>,
  \<^verbatim>\<open>parameters\<close> or \<^verbatim>\<open>functionAbi\<close> slot where it is used.
\<close>

definition valueSlot :: "string \<Rightarrow> string \<Rightarrow> string option \<Rightarrow> blockInput" where
  "valueSlot name v cmp = BlockInput name [ValueBlock] name (Some v) cmp (Some ''text'') None"

definition plainBuiltins :: builtins where
  "plainBuiltins = \<lparr> JSON_parse = (\<lambda>s. None), parseFloat = (\<lambda>s. NaN) \<rparr>"


definition exTimeGt :: block where
  "exTimeGt = Block ''time-2'' Condition (Some ''conditions'') ''Timestamp''
     (Some (emptyProperties\<lparr>conditionType := Some ''time''\<rparr>))
     (Some [valueSlot ''chain'' ''1'' None,
            valueSlot ''minTimestamp'' ''1700000000'' (Some ''>'')])
     None (Some False)"

definition exTime999 :: block where
  "exTime999 = Block ''time-3'' Condition (Some ''conditions'') ''Timestamp''
     (Some (emptyProperties\<lparr>conditionType := Some ''time''\<rparr>))
     (Some [valueSlot ''chain'' ''999'' None,
            valueSlot ''minTimestamp'' ''1700000000'' None])
     None (Some False)"

definition exRpc :: block where
  "exRpc = Block ''rpc-1'' Condition (Some ''conditions'') ''ETH Balance''
     (Some (emptyProperties\<lparr>conditionType := Some ''rpc'',
        p_method := Some ''eth_getBalance'',
        p_parameters := Some (JArray [JString ''0x0000000000000000000000000000000000000001'',
                                      JString ''latest''])\<rparr>))
     (Some [valueSlot ''chain'' ''137'' None])
     None (Some False)"

definition exContract :: block where
  "exContract = Block ''contract-1'' Condition (Some ''conditions'') ''Contract call''
     (Some (emptyProperties\<lparr>conditionType := Some ''contract''\<rparr>))
     (Some [valueSlot ''chain'' ''137'' None])
     None (Some False)"

definition exContractSlot :: block where
  "exContractSlot = Block ''contract-2'' Condition (Some ''conditions'') ''Contract call''
     (Some (emptyProperties\<lparr>conditionType := Some ''contract''\<rparr>))
     (Some [valueSlot ''chain'' ''137'' None, valueSlot ''method'' ''ownerOf'' None])
     None (Some False)"

definition growthSlot :: "string \<Rightarrow> block option \<Rightarrow> blockInput" where
  "growthSlot name child =
    BlockInput name [Condition, Operator] ''Add Condition'' None None None child"

definition exEmptyAnd :: block where
  "exEmptyAnd = Block ''and-1'' Operator (Some ''operators'') ''AND''
     (Some (emptyProperties\<lparr>p_operator := Some ''and''\<rparr>))
     (Some [growthSlot ''condition-1'' None])
     None (Some False)"

definition exNestedEmpty :: block where
  "exNestedEmpty = Block ''or-1'' Operator (Some ''operators'') ''OR''
     (Some (emptyProperties\<lparr>p_operator := Some ''or''\<rparr>))
     (Some [growthSlot ''condition-1'' (Some exTimeGt),
            growthSlot ''condition-2'' (Some exEmptyAnd),
            growthSlot ''condition-3'' None])
     None (Some False)"

definition exParent :: block where
  "exParent = Block ''and-2'' Operator (Some ''operators'') ''AND''
     (Some (emptyProperties\<lparr>p_operator := Some ''and''\<rparr>))
     (Some [growthSlot ''condition-1'' (Some exTimeGt),
            growthSlot ''condition-2'' (Some exContract),
            growthSlot ''condition-3'' (Some exRpc)])
     None (Some False)"

definition exTree :: block where
  "exTree = Block ''and-3'' Operator (Some ''operators'') ''AND''
     (Some (emptyProperties\<lparr>p_operator := Some ''and''\<rparr>))
     (Some [growthSlot ''condition-1'' (Some exTimeGt),
            growthSlot ''condition-2'' (Some exRpc),
            growthSlot ''condition-3'' None])
     None (Some False)"

definition exTimeGt137 :: block where
  "exTimeGt137 = Block ''time-2'' Condition (Some ''conditions'') ''Timestamp''
     (Some (emptyProperties\<lparr>conditionType := Some ''time''\<rparr>))
     (Some [valueSlot ''chain'' ''137'' None,
            valueSlot ''minTimestamp'' ''1700000000'' (Some ''>'')])
     None (Some False)"

definition exTree137 :: block where
  "exTree137 = Block ''and-3'' Operator (Some ''operators'') ''AND''
     (Some (emptyProperties\<lparr>p_operator := Some ''and''\<rparr>))
     (Some [growthSlot ''condition-1'' (Some exTimeGt137),
            growthSlot ''condition-2'' (Some exRpc),
            growthSlot ''condition-3'' None])
     None (Some False)"

definition exOperator :: block where
  "exOperator = Block ''and-4'' Operator (Some ''operators'') ''AND''
     (Some (emptyProperties\<lparr>p_operator := Some ''and'', maxInputs := Some 4\<rparr>))
     (Some [BlockInput ''condition-1'' [Condition, Operator] ''Condition 1'' None None None
              (Some exTimeGt),
            BlockInput ''condition-2'' [Condition, Operator] ''Condition 2'' None None None
              (Some exRpc),
            growthSlot ''condition-1700000000000'' None])
     None (Some False)"

definition exTemplate :: block where
  "exTemplate = Block ''time-template-1700000000500'' Condition (Some ''conditions'')
     ''Timestamp''
     (Some (emptyProperties\<lparr>conditionType := Some ''time''\<rparr>))
     (Some [BlockInput ''chain'' [ValueBlock] ''Chain'' None None None None,
            BlockInput ''minTimestamp'' [ValueBlock] ''Timestamp'' None None (Some ''number'')
              None])
     None (Some True)"

definition exDropped :: block where
  "exDropped = Block ''time-template-1700000000500'' Condition (Some ''conditions'')
     ''Timestamp''
     (Some (emptyProperties\<lparr>conditionType := Some ''time''\<rparr>))
     (Some [BlockInput ''chain'' [ValueBlock] ''Chain'' (Some []) None (Some ''text'') None,
            BlockInput ''minTimestamp'' [ValueBlock] ''Timestamp'' (Some []) None
              (Some ''number'') None])
     None (Some False)"

definition exOperatorGrown :: block where
  "exOperatorGrown = Block ''and-4'' Operator (Some ''operators'') ''AND''
     (Some (emptyProperties\<lparr>p_operator := Some ''and'', maxInputs := Some 4\<rparr>))
     (Some [BlockInput ''condition-1'' [Condition, Operator] ''Condition 1'' None None None
              (Some exTimeGt),
            BlockInput ''condition-2'' [Condition, Operator] ''Condition 2'' None None None
              (Some exRpc),
            BlockInput ''condition-1700000000000'' [Condition, Operator] ''Condition 3''
              None None None (Some exDropped),
            growthSlot ''condition-1700000000999'' None])
     None (Some False)"

definition exOperatorDetached :: block where
  "exOperatorDetached = Block ''and-4'' Operator (Some ''operators'') ''AND''
     (Some (emptyProperties\<lparr>p_operator := Some ''and'', maxInputs := Some 4\<rparr>))
     (Some [BlockInput ''condition-2'' [Condition, Operator] ''Condition 1'' None None None
              (Some exRpc),
            growthSlot ''condition-1700000000999'' None])
     None (Some False)"










definition exHeldWorkspace :: "block list" where
  "exHeldWorkspace = [exTimeGt, exTree, exRpc, exTime999, exContractSlot]"

section \<open>Unfolding rules\<close>

lemmas js_defs = truthyStr_def orElse_def orDefault_def truthyOpt_def truthyNum_def
lemmas parse_defs = parseInt_def isWhiteSpace_def digitVal_def digitTable_def
lemmas first_defs = timeToJson_def rpcToJson_def contractToJson_def chainOf_def findInput_def
  slotValue_def slotComparator_def slotTest_def propOf_def parseChainId_def isValidChainId_def
lemmas second_defs = stepInput_def effectiveValue_def emptyBuilder_def buildCondition_def
  testOr_def replaceTokenId_def propOf_def isValidChainId_def trim_def
lemmas ex_defs = emptyProperties_def valueSlot_def plainBuiltins_def

lemma showNat_numeral:
  "showNat (numeral k) =
    (if (numeral k :: nat) < 10 then [digitChar (numeral k)]
     else showNat (numeral k div 10) @ [digitChar (numeral k mod 10)])"
  by (rule showNat.simps)

lemma showNat_digit: "n < 10 \<Longrightarrow> showNat n = [digitChar n]"
  by (simp add: showNat.simps [of n])

lemmas showNat_eval = showNat_numeral showNat_digit digitChar_def

section \<open>Field updates\<close>

text \<open>An update changes the field it names and no other.\<close>

lemma setInputs_sel [simp]:
  "inputs (setInputs ins b) = ins"
  "block_id (setInputs ins b) = block_id b"
  "block_type (setInputs ins b) = block_type b"
  "category (setInputs ins b) = category b"
  "block_label (setInputs ins b) = block_label b"
  "props (setInputs ins b) = props b"
  "block_value (setInputs ins b) = block_value b"
  "isTemplate (setInputs ins b) = isTemplate b"
  by (cases b; simp)+

lemma propOf_setInputs [simp]: "propOf f (setInputs ins b) = propOf f b"
  by (simp add: propOf_def)

lemma setComparator_sel [simp]:
  "comparator (setComparator c i) = c"
  "input_id (setComparator c i) = input_id i"
  "input_type (setComparator c i) = input_type i"
  "input_label (setComparator c i) = input_label i"
  "input_value (setComparator c i) = input_value i"
  "inputType (setComparator c i) = inputType i"
  "connected (setComparator c i) = connected i"
  by (cases i; simp)+

lemma setLabel_sel [simp]:
  "input_label (setLabel l i) = l"
  "input_id (setLabel l i) = input_id i"
  "input_type (setLabel l i) = input_type i"
  "input_value (setLabel l i) = input_value i"
  "comparator (setLabel l i) = comparator i"
  "inputType (setLabel l i) = inputType i"
  "connected (setLabel l i) = connected i"
  by (cases i; simp)+

lemma setConnected_sel [simp]:
  "connected (setConnected c i) = c"
  "input_id (setConnected c i) = input_id i"
  "input_type (setConnected c i) = input_type i"
  "input_label (setConnected c i) = input_label i"
  "input_value (setConnected c i) = input_value i"
  "comparator (setConnected c i) = comparator i"
  "inputType (setConnected c i) = inputType i"
  by (cases i; simp)+

lemma newSlot_sel [simp]:
  "input_id (newSlot now) = ''condition-'' @ showNat now"
  "input_label (newSlot now) = ''Add Condition''"
  "input_type (newSlot now) = [Condition, Operator]"
  "input_value (newSlot now) = None"
  "connected (newSlot now) = None"
  by (simp_all add: newSlot_def)

lemma setProps_sel [simp]:
  "props (setProps ps b) = ps"
  "inputs (setProps ps b) = inputs b"
  "block_id (setProps ps b) = block_id b"
  "block_type (setProps ps b) = block_type b"
  "category (setProps ps b) = category b"
  "block_label (setProps ps b) = block_label b"
  "block_value (setProps ps b) = block_value b"
  "isTemplate (setProps ps b) = isTemplate b"
  by (cases b; simp)+

section \<open>The first compiler on condition blocks\<close>

lemma blockToJson_condition:
  assumes "block_type b = Condition" and "propOf conditionType b = Some ct" and "ct \<noteq> []"
  shows "blockToJson b =
    (if ct = ''time'' then Some (timeToJson b)
     else if ct = ''rpc'' then Some (rpcToJson b)
     else if ct = ''contract'' then Some (contractToJson b)
     else None)"
proof (cases b)
  case (Block bid ty cat lbl ps ins v tmpl)
  from assms(2,3) have "truthyStr (propOf conditionType b)"
    by (simp add: truthyStr_def)
  with assms show ?thesis
    unfolding Block by (simp add: Let_def)
qed

section \<open>The builder of the second compiler\<close>

text \<open>What a round of the loop leaves alone.\<close>

lemma stepInput_chain:
  assumes "stepInput env b i bld = Inr bld'"
    and "input_id i = ''chain'' \<longrightarrow>
         \<not> (truthyStr (effectiveValue i) \<and> isValidChainId (parseInt (the (effectiveValue i))))"
  shows "b_chain bld' = b_chain bld"
  using assms
  by (auto simp: stepInput_def Let_def split: if_splits sum.splits option.splits)

lemma forEachInput_chain:
  assumes "forEachInput env b ins bld = Inr bld'"
    and "\<forall>i \<in> set ins. input_id i = ''chain'' \<longrightarrow>
         \<not> (truthyStr (effectiveValue i) \<and> isValidChainId (parseInt (the (effectiveValue i))))"
  shows "b_chain bld' = b_chain bld"
  using assms
proof (induction ins arbitrary: bld)
  case Nil
  then show ?case by simp
next
  case (Cons i rest)
  from Cons.prems(1) obtain mid where
    step: "stepInput env b i bld = Inr mid" and loop: "forEachInput env b rest mid = Inr bld'"
    by (auto split: sum.splits)
  from step Cons.prems(2) have "b_chain mid = b_chain bld"
    by (intro stepInput_chain) auto
  moreover from loop Cons.prems(2) have "b_chain bld' = b_chain mid"
    by (intro Cons.IH) auto
  ultimately show ?case by simp
qed

lemma stepInput_method:
  assumes "stepInput env b i bld = Inr bld'"
    and "input_id i \<in> {''method'', ''timestamp'', ''minTimestamp''} \<longrightarrow>
         \<not> truthyStr (effectiveValue i)"
  shows "b_method bld' = b_method bld \<and> b_conditionType bld' = b_conditionType bld"
  using assms
  by (auto simp: stepInput_def Let_def split: if_splits sum.splits option.splits)

lemma forEachInput_method:
  assumes "forEachInput env b ins bld = Inr bld'"
    and "\<forall>i \<in> set ins. input_id i \<in> {''method'', ''timestamp'', ''minTimestamp''} \<longrightarrow>
         \<not> truthyStr (effectiveValue i)"
  shows "b_method bld' = b_method bld \<and> b_conditionType bld' = b_conditionType bld"
  using assms
proof (induction ins arbitrary: bld)
  case Nil
  then show ?case by simp
next
  case (Cons i rest)
  from Cons.prems(1) obtain mid where
    step: "stepInput env b i bld = Inr mid" and loop: "forEachInput env b rest mid = Inr bld'"
    by (auto split: sum.splits)
  from step Cons.prems(2)
  have "b_method mid = b_method bld \<and> b_conditionType mid = b_conditionType bld"
    by (intro stepInput_method) auto
  moreover from loop Cons.prems(2)
  have "b_method bld' = b_method mid \<and> b_conditionType bld' = b_conditionType mid"
    by (intro Cons.IH) auto
  ultimately show ?case by simp
qed

text \<open>A block that is not an operator goes through the builder.\<close>

lemma processBlock_leaf:
  assumes "block_type b \<noteq> Operator" and "props b \<noteq> None"
  shows "processBlock env b =
    (case forEachInput env b (case inputs b of None \<Rightarrow> [] | Some slots \<Rightarrow> slots) emptyBuilder of
       Inl e \<Rightarrow> Inl e
     | Inr bld \<Rightarrow> Inr (buildCondition b bld))"
  using assms by (cases b) (auto simp: Let_def)

lemma buildCondition_rpc:
  assumes "propOf p_method b = Some ''eth_getBalance''" and "buildCondition b bld = Some c"
  shows "c = RpcCondition (the (b_chain bld)) ''eth_getBalance''
               (JArray [JString '':userAddress'', JString ''latest''])
               (testOr (b_returnValueTest bld) ''>='')"
  using assms by (auto simp: buildCondition_def split: if_splits)

section \<open>Operands\<close>

text \<open>The slot walk is the pipeline of the source.\<close>

lemma operandsOf_Cons:
  "operandsOf (i # rest) =
    (case connected i of
       None \<Rightarrow> operandsOf rest
     | Some child \<Rightarrow>
         (case blockToJson child of None \<Rightarrow> operandsOf rest | Some c \<Rightarrow> c # operandsOf rest))"
  by (cases i) (simp split: option.splits)

lemma operandsOf_pipeline:
  "operandsOf ins =
    map the (filter (\<lambda>r. r \<noteq> None)
      (map blockToJson (map (\<lambda>i. the (connected i)) (filter isConnected ins))))"
  by (induction ins) (auto simp: operandsOf_Cons isConnected_def split: option.splits)

lemma operandsOf_append: "operandsOf (xs @ ys) = operandsOf xs @ operandsOf ys"
  by (simp add: operandsOf_pipeline)

lemma processConnected_Cons:
  "processConnected env (i # rest) =
    (case connected i of
       None \<Rightarrow> processConnected env rest
     | Some child \<Rightarrow>
         (case processBlock env child of
            Inl e \<Rightarrow> Inl e
          | Inr r \<Rightarrow>
              (case processConnected env rest of
                 Inl e \<Rightarrow> Inl e
               | Inr rs \<Rightarrow> Inr (case r of None \<Rightarrow> rs | Some c \<Rightarrow> c # rs))))"
  by (cases i) (simp split: option.splits)

lemma processConnected_append:
  "processConnected env (xs @ ys) =
    (case processConnected env xs of
       Inl e \<Rightarrow> Inl e
     | Inr a \<Rightarrow> (case processConnected env ys of Inl e \<Rightarrow> Inl e | Inr c \<Rightarrow> Inr (a @ c)))"
  by (induction xs) (auto simp: processConnected_Cons split: option.splits sum.splits)

text \<open>When no child throws, the operands are the pipeline of the source.\<close>

lemma processConnected_pipeline:
  assumes "map (processBlock env) (map (\<lambda>i. the (connected i)) (filter isConnected ins)) = map Inr rs"
  shows "processConnected env ins = Inr (map the (filter (\<lambda>r. r \<noteq> None) rs))"
  using assms
proof (induction ins arbitrary: rs)
  case Nil
  then show ?case by simp
next
  case (Cons i rest)
  show ?case
  proof (cases "connected i")
    case None
    with Cons show ?thesis
      by (simp add: processConnected_Cons isConnected_def)
  next
    case (Some child)
    then have con: "isConnected i"
      by (simp add: isConnected_def)
    with Some Cons.prems obtain r rs' where rs: "rs = r # rs'"
      and r: "processBlock env child = Inr r"
      and rest: "map (processBlock env) (map (\<lambda>i. the (connected i)) (filter isConnected rest))
                  = map Inr rs'"
      by (cases rs) auto
    from Cons.IH [OF rest] Some r rs show ?thesis
      by (auto simp: processConnected_Cons split: option.splits)
  qed
qed

section \<open>Operator blocks\<close>

lemma blockToJson_operator:
  assumes "block_type b = Operator"
  shows "blockToJson b =
    (case inputs b of
       None \<Rightarrow> None
     | Some slots \<Rightarrow>
         if operandsOf slots = [] then None
         else Some (CompoundCondition (orDefault (propOf p_operator b) ''and'') (operandsOf slots)))"
  using assms by (cases b) (simp add: Let_def split: option.splits)

lemma processBlock_operator:
  assumes "block_type b = Operator" and "props b \<noteq> None"
  shows "processBlock env b =
    (case processConnected env (case inputs b of None \<Rightarrow> [] | Some slots \<Rightarrow> slots) of
       Inl e \<Rightarrow> Inl e
     | Inr ops \<Rightarrow> Inr (Some (CompoundCondition (orDefault (propOf p_operator b) ''and'') ops)))"
  using assms by (cases b) (auto simp: Let_def split: option.splits)

text \<open>
  In the first compiler an operator without operands is absent, whatever its depth:
  no slot connected, or every connected child absent.
\<close>

lemma operandsOf_empty:
  assumes "\<forall>i \<in> set ins. case connected i of None \<Rightarrow> True | Some c \<Rightarrow> blockToJson c = None"
  shows "operandsOf ins = []"
  using assms by (induction ins) (auto simp: operandsOf_Cons split: option.splits)

lemma blockToJson_operator_absent:
  assumes "block_type b = Operator"
    and "\<forall>i \<in> set (case inputs b of None \<Rightarrow> [] | Some slots \<Rightarrow> slots).
           case connected i of None \<Rightarrow> True | Some c \<Rightarrow> blockToJson c = None"
  shows "blockToJson b = None"
  using assms
  by (auto simp: blockToJson_operator operandsOf_empty split: option.splits)

lemma blockToJson_exEmptyAnd: "blockToJson exEmptyAnd = None"
  by (simp add: exEmptyAnd_def growthSlot_def)

lemma blockToJson_exNestedEmpty:
  "blockToJson exNestedEmpty =
    Some (CompoundCondition ''or''
      [TimeCondition (Num 1) ''blocktime''
         \<lparr> rvt_comparator = ''>'', rvt_value = JNumber (Num 1700000000) \<rparr>])"
  by (simp add: exNestedEmpty_def exEmptyAnd_def exTimeGt_def growthSlot_def ex_defs first_defs
      js_defs parse_defs)

text \<open>
  Claim C5 on the second compiler. \<^verbatim>\<open>processBlock\<close> does not yield absent for an
  operator block without operands: an operator whose only slot is empty compiles to
  a compound condition with no operands, at the root, as the whole workspace, and
  below another operator, where the first compiler yields absent
  (\<open>blockToJson_operator_absent\<close> is the claim for the first compiler).
\<close>

theorem processBlock_empty_operator:
  "processBlock plainBuiltins exEmptyAnd = Inr (Some (CompoundCondition ''and'' [])) \<and>
   blocksToJson_v2 plainBuiltins [exEmptyAnd] = Inr (Some (CompoundCondition ''and'' [])) \<and>
   processBlock plainBuiltins exNestedEmpty =
     Inr (Some (CompoundCondition ''or''
       [TimeCondition (Num 1) ''blocktime''
          \<lparr> rvt_comparator = ''>='', rvt_value = JNumber (Num 1700000000) \<rparr>,
        CompoundCondition ''and'' []])) \<and>
   blockToJson exEmptyAnd = None \<and>
   blocksToJson [exEmptyAnd] = None"
  by (simp add: exNestedEmpty_def exEmptyAnd_def exTimeGt_def growthSlot_def ex_defs second_defs
      js_defs parse_defs blocksToJson_v2_def topLevelBlocks_def blocksToJson_def holdsChild_def)

section \<open>rpc blocks\<close>

text \<open>
  Claim C1, as the two compilers have it. For a condition block with \<^verbatim>\<open>conditionType\<close>
  \<^verbatim>\<open>rpc\<close> and method \<^verbatim>\<open>eth_getBalance\<close>: every condition that \<^verbatim>\<open>processBlock\<close>
  yields for it is an rpc condition whose parameters are exactly
  \<^verbatim>\<open>[":userAddress", "latest"]\<close>, whatever the \<^verbatim>\<open>parameters\<close> entry of the properties;
  \<^verbatim>\<open>blockToJson\<close> yields an rpc condition whose parameters are the \<^verbatim>\<open>parameters\<close>
  entry of the properties when that entry is there and truthy, and
  \<^verbatim>\<open>[":userAddress", "latest"]\<close> otherwise.
\<close>

theorem rpc_parameters:
  assumes "block_type b = Condition"
    and "propOf conditionType b = Some ''rpc''"
    and "propOf p_method b = Some ''eth_getBalance''"
  shows
    "(\<forall>c. processBlock env b = Inr (Some c) \<longrightarrow>
        (\<exists>ch t. c = RpcCondition ch ''eth_getBalance''
                     (JArray [JString '':userAddress'', JString ''latest'']) t)) \<and>
     (\<exists>ch t. blockToJson b =
        Some (RpcCondition ch ''eth_getBalance''
               (case propOf p_parameters b of
                  None \<Rightarrow> JArray [JString '':userAddress'', JString ''latest'']
                | Some ps \<Rightarrow>
                    if truthy ps then ps
                    else JArray [JString '':userAddress'', JString ''latest''])
               t))"
proof
  from assms(2) have ps: "props b \<noteq> None"
    by (auto simp: propOf_def split: option.splits)
  from assms(1) have ty: "block_type b \<noteq> Operator"
    by simp
  show "\<forall>c. processBlock env b = Inr (Some c) \<longrightarrow>
        (\<exists>ch t. c = RpcCondition ch ''eth_getBalance''
                     (JArray [JString '':userAddress'', JString ''latest'']) t)"
  proof (intro allI impI)
    fix c
    assume "processBlock env b = Inr (Some c)"
    then obtain bld where "buildCondition b bld = Some c"
      unfolding processBlock_leaf [OF ty ps] by (auto split: sum.splits)
    from buildCondition_rpc [OF assms(3) this]
    show "\<exists>ch t. c = RpcCondition ch ''eth_getBalance''
                     (JArray [JString '':userAddress'', JString ''latest'']) t"
      by blast
  qed
next
  have "blockToJson b = Some (rpcToJson b)"
    using blockToJson_condition [OF assms(1,2)] by simp
  then show "\<exists>ch t. blockToJson b =
        Some (RpcCondition ch ''eth_getBalance''
               (case propOf p_parameters b of
                  None \<Rightarrow> JArray [JString '':userAddress'', JString ''latest'']
                | Some ps \<Rightarrow>
                    if truthy ps then ps
                    else JArray [JString '':userAddress'', JString ''latest''])
               t)"
    using assms(3) by (simp add: rpcToJson_def orDefault_def Let_def)
qed

text \<open>
  A block with a \<^verbatim>\<open>parameters\<close> entry of its own: the second compiler emits the fixed
  pair, the first compiler the entry.
\<close>

theorem rpc_parameters_witness:
  "block_type exRpc = Condition \<and> propOf conditionType exRpc = Some ''rpc'' \<and>
   propOf p_method exRpc = Some ''eth_getBalance'' \<and>
   processBlock plainBuiltins exRpc =
     Inr (Some (RpcCondition (Num 137) ''eth_getBalance''
            (JArray [JString '':userAddress'', JString ''latest''])
            \<lparr> rvt_comparator = ''>='', rvt_value = JNumber (Num 0) \<rparr>)) \<and>
   (\<exists>ch t. blockToJson exRpc =
      Some (RpcCondition ch ''eth_getBalance''
             (JArray [JString ''0x0000000000000000000000000000000000000001'', JString ''latest''])
             t))"
proof -
  have h1: "block_type exRpc = Condition"
    by (simp add: exRpc_def)
  have h2: "propOf conditionType exRpc = Some ''rpc''"
    by (simp add: exRpc_def propOf_def emptyProperties_def)
  have h3: "propOf p_method exRpc = Some ''eth_getBalance''"
    by (simp add: exRpc_def propOf_def emptyProperties_def)
  have h4: "propOf p_parameters exRpc =
      Some (JArray [JString ''0x0000000000000000000000000000000000000001'', JString ''latest''])"
    by (simp add: exRpc_def propOf_def emptyProperties_def)
  have run: "processBlock plainBuiltins exRpc =
     Inr (Some (RpcCondition (Num 137) ''eth_getBalance''
            (JArray [JString '':userAddress'', JString ''latest''])
            \<lparr> rvt_comparator = ''>='', rvt_value = JNumber (Num 0) \<rparr>))"
    by (simp add: exRpc_def ex_defs second_defs js_defs parse_defs)
  from rpc_parameters [OF h1 h2 h3, of plainBuiltins] h4
  have "\<exists>ch t. blockToJson exRpc =
      Some (RpcCondition ch ''eth_getBalance''
             (JArray [JString ''0x0000000000000000000000000000000000000001'', JString ''latest''])
             t)"
    by simp
  with h1 h2 h3 run show ?thesis
    by blast
qed

text \<open>
  The claim as the specification states it fails on the first compiler: what is
  emitted is the \<^verbatim>\<open>parameters\<close> entry of the properties.
\<close>

theorem rpc_parameters_counterexample:
  "block_type exRpc = Condition \<and> propOf conditionType exRpc = Some ''rpc'' \<and>
   propOf p_method exRpc = Some ''eth_getBalance'' \<and>
   blockToJson exRpc =
     Some (RpcCondition (Num 137) ''eth_getBalance''
            (JArray [JString ''0x0000000000000000000000000000000000000001'', JString ''latest''])
            \<lparr> rvt_comparator = ''>='', rvt_value = JString ''0'' \<rparr>) \<and>
   parameters (the (blockToJson exRpc)) \<noteq> JArray [JString '':userAddress'', JString ''latest'']"
  by (simp add: exRpc_def ex_defs first_defs js_defs parse_defs)

section \<open>The chain of a condition\<close>

lemma invalidChainMessage_text:
  "invalidChainMessage = ''Invalid chain ID. Must be one of: 137, 80002, 11155111, 1''"
  by (simp add: invalidChainMessage_def validChains_def showInt_def showNat_eval)

lemma getValidChainId_cases:
  "getValidChainId n = (if isValidChainId n then Inr n else Inl invalidChainMessage)"
  by (cases n) (auto simp: getValidChainId_def validChains_def isValidChainId_def)

lemma chainOf_invalid:
  assumes "slotValue (findInput ''chain'' b) = Some v" and "\<not> isValidChainId (parseInt v)"
  shows "chainOf b = Num 11155111"
  using assms by (simp add: chainOf_def parseChainId_def Let_def)

lemma processBlock_no_chain:
  assumes "block_type b \<noteq> Operator"
    and "\<forall>i \<in> set (case inputs b of None \<Rightarrow> [] | Some slots \<Rightarrow> slots).
           input_id i = ''chain'' \<longrightarrow>
           \<not> (truthyStr (effectiveValue i) \<and> isValidChainId (parseInt (the (effectiveValue i))))"
  shows "processBlock env b \<noteq> Inr (Some c)"
proof (cases "props b")
  case None
  then show ?thesis by (cases b) simp
next
  case (Some p)
  then have ps: "props b \<noteq> None" by simp
  show ?thesis
  proof
    assume "processBlock env b = Inr (Some c)"
    then obtain bld where
      loop: "forEachInput env b (case inputs b of None \<Rightarrow> [] | Some slots \<Rightarrow> slots) emptyBuilder
              = Inr bld"
      and built: "buildCondition b bld = Some c"
      unfolding processBlock_leaf [OF assms(1) ps] by (auto split: sum.splits)
    from forEachInput_chain [OF loop assms(2)] have "b_chain bld = None"
      by (simp add: emptyBuilder_def)
    with built show False
      by (simp add: buildCondition_def truthyNum_def)
  qed
qed

section \<open>time blocks\<close>














section \<open>An invalid chain\<close>

text \<open>
  Claim C2, as the code has it. For a condition block (time, rpc or contract) whose
  \<^verbatim>\<open>chain\<close> slot holds a value that is not empty and does not parse to one of 1, 137,
  80002 and 11155111, compilation does not fail. \<^verbatim>\<open>blockToJson\<close> yields a condition
  on the default chain 11155111, which the chain check of the encryption panel
  accepts; \<^verbatim>\<open>processBlock\<close> yields no condition for a block none of whose \<^verbatim>\<open>chain\<close>
  slots parses to a valid chain. The error that lists the valid chains is the one of
  \<^verbatim>\<open>getValidChainId\<close>, thrown for a chain number outside the list: "Invalid chain ID.
  Must be one of: 137, 80002, 11155111, 1".
\<close>

theorem invalid_chain:
  assumes "block_type b = Condition"
    and "propOf conditionType b = Some ct"
    and "ct \<in> {''time'', ''rpc'', ''contract''}"
    and "slotValue (findInput ''chain'' b) = Some v"
    and "v \<noteq> []"
    and "\<not> isValidChainId (parseInt v)"
  shows
    "(\<exists>c. blockToJson b = Some c \<and> chain c = Num 11155111 \<and>
          getValidChainId (chain c) = Inr (Num 11155111)) \<and>
     ((\<forall>i \<in> set (case inputs b of None \<Rightarrow> [] | Some slots \<Rightarrow> slots).
          input_id i = ''chain'' \<longrightarrow>
          \<not> (truthyStr (effectiveValue i) \<and> isValidChainId (parseInt (the (effectiveValue i)))))
        \<longrightarrow> (\<forall>c. processBlock env b \<noteq> Inr (Some c))) \<and>
     (\<forall>n. getValidChainId n =
        (if isValidChainId n then Inr n
         else Inl ''Invalid chain ID. Must be one of: 137, 80002, 11155111, 1''))"
proof (intro conjI)
  from assms(3) have "ct \<noteq> []" by auto
  from blockToJson_condition [OF assms(1,2) this] assms(3)
  have "blockToJson b = Some (timeToJson b) \<or> blockToJson b = Some (rpcToJson b)
        \<or> blockToJson b = Some (contractToJson b)"
    by auto
  moreover have "chainOf b = Num 11155111"
    by (rule chainOf_invalid [OF assms(4,6)])
  moreover have "getValidChainId (Num 11155111) = Inr (Num 11155111)"
    by (simp add: getValidChainId_cases isValidChainId_def)
  ultimately show "\<exists>c. blockToJson b = Some c \<and> chain c = Num 11155111 \<and>
          getValidChainId (chain c) = Inr (Num 11155111)"
    by (auto simp: timeToJson_def rpcToJson_def contractToJson_def Let_def)
next
  from assms(1) have "block_type b \<noteq> Operator" by simp
  then show "(\<forall>i \<in> set (case inputs b of None \<Rightarrow> [] | Some slots \<Rightarrow> slots).
          input_id i = ''chain'' \<longrightarrow>
          \<not> (truthyStr (effectiveValue i) \<and> isValidChainId (parseInt (the (effectiveValue i)))))
        \<longrightarrow> (\<forall>c. processBlock env b \<noteq> Inr (Some c))"
    using processBlock_no_chain by blast
next
  show "\<forall>n. getValidChainId n =
        (if isValidChainId n then Inr n
         else Inl ''Invalid chain ID. Must be one of: 137, 80002, 11155111, 1'')"
    by (simp add: getValidChainId_cases invalidChainMessage_text)
qed

text \<open>
  The chain \<^verbatim>\<open>999\<close> of scenario D.
\<close>

theorem invalid_chain_witness:
  "block_type exTime999 = Condition \<and> propOf conditionType exTime999 = Some ''time'' \<and>
   slotValue (findInput ''chain'' exTime999) = Some ''999'' \<and>
   \<not> isValidChainId (parseInt ''999'') \<and>
   (\<exists>c. blockToJson exTime999 = Some c \<and> chain c = Num 11155111) \<and>
   (\<forall>c. processBlock plainBuiltins exTime999 \<noteq> Inr (Some c)) \<and>
   getValidChainId (Num 999) = Inl ''Invalid chain ID. Must be one of: 137, 80002, 11155111, 1''"
proof -
  have h1: "block_type exTime999 = Condition"
    by (simp add: exTime999_def)
  have h2: "propOf conditionType exTime999 = Some ''time''"
    by (simp add: exTime999_def propOf_def emptyProperties_def)
  have h3: "''time'' \<in> {''time'', ''rpc'', ''contract''}"
    by simp
  have h4: "slotValue (findInput ''chain'' exTime999) = Some ''999''"
    by (simp add: exTime999_def findInput_def slotValue_def valueSlot_def)
  have h5: "''999'' \<noteq> []"
    by simp
  have h6: "\<not> isValidChainId (parseInt ''999'')"
    by (simp add: isValidChainId_def parse_defs)
  have slots: "\<forall>i \<in> set (case inputs exTime999 of None \<Rightarrow> [] | Some slots \<Rightarrow> slots).
          input_id i = ''chain'' \<longrightarrow>
          \<not> (truthyStr (effectiveValue i) \<and> isValidChainId (parseInt (the (effectiveValue i))))"
    by (simp add: exTime999_def valueSlot_def effectiveValue_def js_defs isValidChainId_def
        parse_defs)
  have n: "\<not> isValidChainId (Num 999)"
    by (simp add: isValidChainId_def)
  from invalid_chain [OF h1 h2 h3 h4 h5 h6, of plainBuiltins] slots n h1 h2 h4 h6
  show ?thesis
    by auto
qed

text \<open>
  The claim as the specification states it fails: the block of scenario D compiles,
  on the default chain, and the chain check accepts the chain of the result.
\<close>

theorem invalid_chain_counterexample:
  "slotValue (findInput ''chain'' exTime999) = Some ''999'' \<and>
   blockToJson exTime999 =
     Some (TimeCondition (Num 11155111) ''blocktime''
            \<lparr> rvt_comparator = ''>='', rvt_value = JNumber (Num 1700000000) \<rparr>) \<and>
   getValidChainId (chain (the (blockToJson exTime999))) = Inr (Num 11155111)"
  by (simp add: exTime999_def ex_defs first_defs js_defs parse_defs getValidChainId_def
      validChains_def)

section \<open>contract blocks\<close>

lemma processBlock_no_method:
  assumes "block_type b \<noteq> Operator"
    and "propOf p_method b = None"
    and "\<forall>i \<in> set (case inputs b of None \<Rightarrow> [] | Some slots \<Rightarrow> slots).
           input_id i \<in> {''method'', ''timestamp'', ''minTimestamp''} \<longrightarrow>
           \<not> truthyStr (effectiveValue i)"
  shows "processBlock env b \<noteq> Inr (Some c)"
proof (cases "props b")
  case None
  then show ?thesis by (cases b) simp
next
  case (Some p)
  then have ps: "props b \<noteq> None" by simp
  show ?thesis
  proof
    assume "processBlock env b = Inr (Some c)"
    then obtain bld where
      loop: "forEachInput env b (case inputs b of None \<Rightarrow> [] | Some slots \<Rightarrow> slots) emptyBuilder
              = Inr bld"
      and built: "buildCondition b bld = Some c"
      unfolding processBlock_leaf [OF assms(1) ps] by (auto split: sum.splits)
    from forEachInput_method [OF loop assms(3)]
    have "b_method bld = None" and "b_conditionType bld = None"
      by (simp_all add: emptyBuilder_def)
    with built assms(2) show False
      by (simp add: buildCondition_def truthyStr_def)
  qed
qed

text \<open>A child that compiles to nothing is not among the operands of its parent.\<close>

lemma processBlock_drops_absent:
  assumes "block_type p = Operator" and "props p \<noteq> None"
    and "inputs p = Some (xs @ s # ys)" and "connected s = Some b"
    and "processBlock env b = Inr None"
  shows "processBlock env p = processBlock env (setInputs (Some (xs @ ys)) p)"
proof -
  have "processConnected env (xs @ s # ys) = processConnected env (xs @ ys)"
    using assms(4,5)
    by (simp add: processConnected_append processConnected_Cons split: sum.splits)
  with assms(1,2,3) show ?thesis
    by (simp add: processBlock_operator cong: sum.case_cong)
qed

text \<open>
  Claim C3, as the two compilers have it. For a condition block with \<^verbatim>\<open>conditionType\<close>
  \<^verbatim>\<open>contract\<close> and no \<^verbatim>\<open>method\<close> entry in its properties: \<^verbatim>\<open>blockToJson\<close> is not
  absent, it yields a contract condition with the default method \<^verbatim>\<open>balanceOf\<close>;
  \<^verbatim>\<open>processBlock\<close> yields no condition when no slot named \<^verbatim>\<open>method\<close>, \<^verbatim>\<open>timestamp\<close>
  or \<^verbatim>\<open>minTimestamp\<close> holds a value; and an operator block one of whose connected
  children compiles to nothing under \<^verbatim>\<open>processBlock\<close> compiles as the operator
  without that slot.
\<close>

theorem contract_without_method:
  assumes "block_type b = Condition"
    and "propOf conditionType b = Some ''contract''"
    and "propOf p_method b = None"
  shows
    "(\<exists>ch a ps st t. blockToJson b = Some (ContractCondition ch a ''balanceOf'' ps st t)) \<and>
     ((\<forall>i \<in> set (case inputs b of None \<Rightarrow> [] | Some slots \<Rightarrow> slots).
          input_id i \<in> {''method'', ''timestamp'', ''minTimestamp''} \<longrightarrow>
          \<not> truthyStr (effectiveValue i))
        \<longrightarrow> (\<forall>c. processBlock env b \<noteq> Inr (Some c))) \<and>
     (\<forall>p xs s ys.
        block_type p = Operator \<and> props p \<noteq> None \<and> inputs p = Some (xs @ s # ys) \<and>
        connected s = Some b \<and> processBlock env b = Inr None
        \<longrightarrow> processBlock env p = processBlock env (setInputs (Some (xs @ ys)) p))"
proof (intro conjI)
  have "blockToJson b = Some (contractToJson b)"
    using blockToJson_condition [OF assms(1,2)] by simp
  then show "\<exists>ch a ps st t. blockToJson b = Some (ContractCondition ch a ''balanceOf'' ps st t)"
    using assms(3) by (simp add: contractToJson_def orDefault_def Let_def)
next
  from assms(1) have "block_type b \<noteq> Operator" by simp
  from processBlock_no_method [OF this assms(3)]
  show "(\<forall>i \<in> set (case inputs b of None \<Rightarrow> [] | Some slots \<Rightarrow> slots).
          input_id i \<in> {''method'', ''timestamp'', ''minTimestamp''} \<longrightarrow>
          \<not> truthyStr (effectiveValue i))
        \<longrightarrow> (\<forall>c. processBlock env b \<noteq> Inr (Some c))"
    by blast
next
  show "\<forall>p xs s ys.
        block_type p = Operator \<and> props p \<noteq> None \<and> inputs p = Some (xs @ s # ys) \<and>
        connected s = Some b \<and> processBlock env b = Inr None
        \<longrightarrow> processBlock env p = processBlock env (setInputs (Some (xs @ ys)) p)"
    using processBlock_drops_absent by blast
qed

text \<open>
  A contract block with a chain slot only, alone and as the second child of an
  operator.
\<close>

theorem contract_without_method_witness:
  "block_type exContract = Condition \<and> propOf conditionType exContract = Some ''contract'' \<and>
   propOf p_method exContract = None \<and>
   (\<exists>ch a ps st t.
      blockToJson exContract = Some (ContractCondition ch a ''balanceOf'' ps st t)) \<and>
   processBlock plainBuiltins exContract = Inr None \<and>
   processBlock plainBuiltins exParent =
     processBlock plainBuiltins
       (setInputs (Some [growthSlot ''condition-1'' (Some exTimeGt),
                         growthSlot ''condition-3'' (Some exRpc)]) exParent)"
proof -
  have h1: "block_type exContract = Condition"
    by (simp add: exContract_def)
  have h2: "propOf conditionType exContract = Some ''contract''"
    by (simp add: exContract_def propOf_def emptyProperties_def)
  have h3: "propOf p_method exContract = None"
    by (simp add: exContract_def propOf_def emptyProperties_def)
  have absent: "processBlock plainBuiltins exContract = Inr None"
    by (simp add: exContract_def ex_defs second_defs js_defs parse_defs)
  have parent: "block_type exParent = Operator \<and> props exParent \<noteq> None \<and>
      inputs exParent = Some ([growthSlot ''condition-1'' (Some exTimeGt)]
        @ growthSlot ''condition-2'' (Some exContract) # [growthSlot ''condition-3'' (Some exRpc)]) \<and>
      connected (growthSlot ''condition-2'' (Some exContract)) = Some exContract"
    by (simp add: exParent_def growthSlot_def)
  from contract_without_method [OF h1 h2 h3, of plainBuiltins] absent parent
  have "(\<exists>ch a ps st t.
      blockToJson exContract = Some (ContractCondition ch a ''balanceOf'' ps st t)) \<and>
    processBlock plainBuiltins exParent =
     processBlock plainBuiltins
       (setInputs (Some ([growthSlot ''condition-1'' (Some exTimeGt)]
          @ [growthSlot ''condition-3'' (Some exRpc)])) exParent)"
    by blast
  with h1 h2 h3 absent show ?thesis
    by simp
qed

text \<open>
  The claim as the specification states it fails: the first compiler emits the
  block with the method \<^verbatim>\<open>balanceOf\<close>, and the second compiler emits a block whose
  method is in a slot.
\<close>

theorem contract_without_method_counterexample:
  "propOf conditionType exContract = Some ''contract'' \<and> propOf p_method exContract = None \<and>
   blockToJson exContract =
     Some (ContractCondition (Num 137) [] ''balanceOf'' (JArray [JString '':userAddress''])
            None \<lparr> rvt_comparator = ''>='', rvt_value = JString ''0'' \<rparr>) \<and>
   propOf conditionType exContractSlot = Some ''contract'' \<and>
   propOf p_method exContractSlot = None \<and>
   processBlock plainBuiltins exContractSlot =
     Inr (Some (ContractCondition (Num 137) [] ''ownerOf'' (JArray []) None
            \<lparr> rvt_comparator = ''>'', rvt_value = JNumber (Num 0) \<rparr>))"
  by (simp add: exContract_def exContractSlot_def ex_defs first_defs second_defs js_defs
      parse_defs)

section \<open>The workspace of the second compiler\<close>

lemma processAll_results:
  assumes "map (processBlock env) bs = map Inr rs"
  shows "processAll env bs = Inr rs"
  using assms
proof (induction bs arbitrary: rs)
  case Nil
  then show ?case by simp
next
  case (Cons b bs)
  then obtain r rs' where "rs = r # rs'" and "processBlock env b = Inr r"
    and "map (processBlock env) bs = map Inr rs'"
    by (cases rs) auto
  with Cons.IH show ?case by simp
qed

text \<open>
  The top-level blocks are the blocks of the workspace that no block of the
  workspace holds in a slot.
\<close>

lemma heldIn_holdsChild:
  "heldIn blocks b = list_ex (holdsChild (block_id b)) blocks"
proof -
  have slot: "(case connected i of None \<Rightarrow> False | Some c \<Rightarrow> block_id c = bid)
      = (\<exists>c. connected i = Some c \<and> block_id c = bid)" for i bid
    by (cases "connected i") simp_all
  have "holdsChild bid b' =
      (\<exists>i \<in> set (case inputs b' of None \<Rightarrow> [] | Some slots \<Rightarrow> slots).
         \<exists>c. connected i = Some c \<and> block_id c = bid)" for bid b'
    by (cases "inputs b'") (simp_all add: holdsChild_def list_ex_iff slot)
  then show ?thesis
    by (simp add: heldIn_def list_ex_iff)
qed

lemma topLevelBlocks_not_held:
  "topLevelBlocks blocks = filter (\<lambda>b. \<not> heldIn blocks b) blocks"
  by (simp add: topLevelBlocks_def heldIn_holdsChild)

text \<open>
  Claim C10. In the second compiler, \<^verbatim>\<open>blocksToJson\<close> compiles, each on its own, the
  blocks of the workspace that no block of the workspace holds in a slot (the
  top-level blocks), in the order of the workspace; a block that is held is not
  compiled at the top level. When none of the top-level blocks throws, the results
  that are absent are dropped, no result left is absent, a single result left is
  returned as it is, and two or more are the operands, in the order of the top-level
  blocks, of a compound condition with the operator \<^verbatim>\<open>and\<close>. (The statement covers
  any count of top-level blocks.)
\<close>

theorem blocksToJson_v2_top_level:
  assumes "map (processBlock env) (filter (\<lambda>b. \<not> heldIn blocks b) blocks) = map Inr rs"
  shows "blocksToJson_v2 env blocks =
    Inr (case map the (filter (\<lambda>r. r \<noteq> None) rs) of
           [] \<Rightarrow> None
         | [c] \<Rightarrow> Some c
         | c # d # cs \<Rightarrow> Some (CompoundCondition ''and'' (c # d # cs)))"
proof -
  let ?top = "topLevelBlocks blocks"
  from assms have runs: "map (processBlock env) ?top = map Inr rs"
    by (simp add: topLevelBlocks_not_held)
  have len: "length rs = length ?top"
    using runs by (metis length_map)
  have all: "processAll env ?top = Inr rs"
    by (rule processAll_results [OF runs])
  show ?thesis
  proof (cases ?top)
    case Nil
    with len show ?thesis
      by (simp add: blocksToJson_v2_def)
  next
    case (Cons b bs)
    note top = Cons
    show ?thesis
    proof (cases bs)
      case Nil
      with top runs obtain r where "rs = [r]" and "processBlock env b = Inr r"
        by (cases rs) auto
      with top Nil show ?thesis
        by (cases r) (simp_all add: blocksToJson_v2_def)
    next
      case (Cons b' bs')
      define conditions where "conditions = map the (filter (\<lambda>r. r \<noteq> None) rs)"
      from top Cons all have "blocksToJson_v2 env blocks =
        (if length conditions = 0 then Inr None
         else if length conditions = 1 then Inr (Some (hd conditions))
         else Inr (Some (CompoundCondition ''and'' conditions)))"
        unfolding conditions_def blocksToJson_v2_def Let_def by simp
      then show ?thesis
        unfolding conditions_def [symmetric]
        by (cases conditions rule: list.exhaust [case_product list.exhaust])
          (simp_all split: list.splits)
    qed
  qed
qed


text \<open>
  A workspace of five blocks. The operator block holds the first and the third
  block, which are therefore not compiled at the top level; of the three top-level
  blocks, the second compiles to nothing.
\<close>

theorem blocksToJson_v2_top_level_witness:
  "exHeldWorkspace = [exTimeGt, exTree, exRpc, exTime999, exContractSlot] \<and>
   heldIn exHeldWorkspace exTimeGt \<and> heldIn exHeldWorkspace exRpc \<and>
   filter (\<lambda>b. \<not> heldIn exHeldWorkspace b) exHeldWorkspace
     = [exTree, exTime999, exContractSlot] \<and>
   map (processBlock plainBuiltins) [exTree, exTime999, exContractSlot] =
     map Inr
       [Some (CompoundCondition ''and''
          [TimeCondition (Num 1) ''blocktime''
             \<lparr> rvt_comparator = ''>='', rvt_value = JNumber (Num 1700000000) \<rparr>,
           RpcCondition (Num 137) ''eth_getBalance''
             (JArray [JString '':userAddress'', JString ''latest''])
             \<lparr> rvt_comparator = ''>='', rvt_value = JNumber (Num 0) \<rparr>]),
        None,
        Some (ContractCondition (Num 137) [] ''ownerOf'' (JArray []) None
                \<lparr> rvt_comparator = ''>'', rvt_value = JNumber (Num 0) \<rparr>)] \<and>
   blocksToJson_v2 plainBuiltins exHeldWorkspace =
     Inr (Some (CompoundCondition ''and''
       [CompoundCondition ''and''
          [TimeCondition (Num 1) ''blocktime''
             \<lparr> rvt_comparator = ''>='', rvt_value = JNumber (Num 1700000000) \<rparr>,
           RpcCondition (Num 137) ''eth_getBalance''
             (JArray [JString '':userAddress'', JString ''latest''])
             \<lparr> rvt_comparator = ''>='', rvt_value = JNumber (Num 0) \<rparr>],
        ContractCondition (Num 137) [] ''ownerOf'' (JArray []) None
          \<lparr> rvt_comparator = ''>'', rvt_value = JNumber (Num 0) \<rparr>]))"
proof -
  have ids: "block_id exTimeGt = ''time-2''" "block_id exTree = ''and-3''"
    "block_id exRpc = ''rpc-1''" "block_id exTime999 = ''time-3''"
    "block_id exContractSlot = ''contract-2''"
    by (simp_all add: exTimeGt_def exTree_def exRpc_def exTime999_def exContractSlot_def)
  have slots: "inputs exTree = Some [growthSlot ''condition-1'' (Some exTimeGt),
            growthSlot ''condition-2'' (Some exRpc),
            growthSlot ''condition-3'' None]"
    "inputs exTimeGt = Some [valueSlot ''chain'' ''1'' None,
            valueSlot ''minTimestamp'' ''1700000000'' (Some ''>'')]"
    "inputs exRpc = Some [valueSlot ''chain'' ''137'' None]"
    "inputs exTime999 = Some [valueSlot ''chain'' ''999'' None,
            valueSlot ''minTimestamp'' ''1700000000'' None]"
    "inputs exContractSlot = Some [valueSlot ''chain'' ''137'' None,
            valueSlot ''method'' ''ownerOf'' None]"
    by (simp_all add: exTimeGt_def exTree_def exRpc_def exTime999_def exContractSlot_def)
  have held: "heldIn exHeldWorkspace exTimeGt" "heldIn exHeldWorkspace exRpc"
    "\<not> heldIn exHeldWorkspace exTree" "\<not> heldIn exHeldWorkspace exTime999"
    "\<not> heldIn exHeldWorkspace exContractSlot"
    by (simp_all add: heldIn_holdsChild holdsChild_def exHeldWorkspace_def ids slots
        growthSlot_def valueSlot_def)
  have top: "filter (\<lambda>b. \<not> heldIn exHeldWorkspace b) exHeldWorkspace
     = [exTree, exTime999, exContractSlot]"
    by (subst (2) exHeldWorkspace_def) (simp add: held)
  have results: "map (processBlock plainBuiltins) [exTree, exTime999, exContractSlot] =
     map Inr
       [Some (CompoundCondition ''and''
          [TimeCondition (Num 1) ''blocktime''
             \<lparr> rvt_comparator = ''>='', rvt_value = JNumber (Num 1700000000) \<rparr>,
           RpcCondition (Num 137) ''eth_getBalance''
             (JArray [JString '':userAddress'', JString ''latest''])
             \<lparr> rvt_comparator = ''>='', rvt_value = JNumber (Num 0) \<rparr>]),
        None,
        Some (ContractCondition (Num 137) [] ''ownerOf'' (JArray []) None
                \<lparr> rvt_comparator = ''>'', rvt_value = JNumber (Num 0) \<rparr>)]"
    by (simp add: exTree_def exTimeGt_def exTime999_def exRpc_def exContractSlot_def
        growthSlot_def ex_defs second_defs js_defs parse_defs)
  then have runs: "map (processBlock plainBuiltins)
      (filter (\<lambda>b. \<not> heldIn exHeldWorkspace b) exHeldWorkspace) =
     map Inr
       [Some (CompoundCondition ''and''
          [TimeCondition (Num 1) ''blocktime''
             \<lparr> rvt_comparator = ''>='', rvt_value = JNumber (Num 1700000000) \<rparr>,
           RpcCondition (Num 137) ''eth_getBalance''
             (JArray [JString '':userAddress'', JString ''latest''])
             \<lparr> rvt_comparator = ''>='', rvt_value = JNumber (Num 0) \<rparr>]),
        None,
        Some (ContractCondition (Num 137) [] ''ownerOf'' (JArray []) None
                \<lparr> rvt_comparator = ''>'', rvt_value = JNumber (Num 0) \<rparr>)]"
    unfolding top .
  have ws: "exHeldWorkspace = [exTimeGt, exTree, exRpc, exTime999, exContractSlot]"
    by (rule exHeldWorkspace_def)
  from blocksToJson_v2_top_level [OF runs]
  have "blocksToJson_v2 plainBuiltins exHeldWorkspace =
     Inr (Some (CompoundCondition ''and''
       [CompoundCondition ''and''
          [TimeCondition (Num 1) ''blocktime''
             \<lparr> rvt_comparator = ''>='', rvt_value = JNumber (Num 1700000000) \<rparr>,
           RpcCondition (Num 137) ''eth_getBalance''
             (JArray [JString '':userAddress'', JString ''latest''])
             \<lparr> rvt_comparator = ''>='', rvt_value = JNumber (Num 0) \<rparr>],
        ContractCondition (Num 137) [] ''ownerOf'' (JArray []) None
          \<lparr> rvt_comparator = ''>'', rvt_value = JNumber (Num 0) \<rparr>]))"
    by simp
  with ws held(1,2) top results show ?thesis
    by blast
qed

section \<open>The first slot with an id\<close>

lemma find_first:
  assumes "\<forall>x \<in> set xs. \<not> p x" and "p s"
  shows "List.find p (xs @ s # ys) = Some s"
  using assms by (induction xs) auto

lemma updateFirst_first:
  assumes "\<forall>x \<in> set xs. \<not> p x" and "p s"
  shows "updateFirst p f (xs @ s # ys) = xs @ f s # ys"
  using assms by (induction xs) auto

lemma find_split:
  assumes "List.find p ins = Some s"
  obtains xs ys where "ins = xs @ s # ys" and "\<forall>x \<in> set xs. \<not> p x" and "p s"
proof -
  from assms have "\<exists>xs ys. ins = xs @ s # ys \<and> (\<forall>x \<in> set xs. \<not> p x) \<and> p s"
  proof (induction ins)
    case Nil
    then show ?case by simp
  next
    case (Cons a ins)
    show ?case
    proof (cases "p a")
      case True
      with Cons.prems have "a = s" by simp
      with True have "a # ins = [] @ s # ins \<and> (\<forall>x \<in> set []. \<not> p x) \<and> p s" by simp
      then show ?thesis by blast
    next
      case False
      with Cons obtain xs ys where "ins = xs @ s # ys" "\<forall>x \<in> set xs. \<not> p x" "p s"
        by auto
      with False have "a # ins = (a # xs) @ s # ys \<and> (\<forall>x \<in> set (a # xs). \<not> p x) \<and> p s"
        by simp
      then show ?thesis by blast
    qed
  qed
  with that show thesis by blast
qed

section \<open>Setting a value\<close>

lemma findAndUpdateInput_valueSetAt:
  assumes "findAndUpdateInput v b slotId path = Some b'"
  shows "valueSetAt path slotId v b b'"
  using assms
proof (induction path arbitrary: b b')
  case Nil
  obtain bid ty cat lbl ps ins bv tmpl where b: "b = Block bid ty cat lbl ps ins bv tmpl"
    by (cases b)
  from Nil b obtain slots i where ins: "ins = Some slots"
    and found: "List.find (hasId slotId) slots = Some i"
    and b': "b' = setInputs (Some (updateFirst (hasId slotId) (setInputValue (Some v)) slots)) b"
    by (auto split: option.splits)
  from found obtain xs ys where slots: "slots = xs @ i # ys"
    and before: "\<forall>x \<in> set xs. \<not> hasId slotId x" and i: "hasId slotId i"
    by (rule find_split)
  obtain iid ity il iv ic it con where i_eq: "i = BlockInput iid ity il iv ic it con"
    by (cases i)
  from i i_eq have iid: "iid = slotId"
    by (simp add: hasId_def)
  from before have before': "\<forall>x \<in> set xs. input_id x \<noteq> iid"
    by (simp add: hasId_def iid)
  have "updateFirst (hasId slotId) (setInputValue (Some v)) slots
      = xs @ setInputValue (Some v) i # ys"
    unfolding slots by (rule updateFirst_first [OF before i])
  then have "b' = Block bid ty cat lbl ps
      (Some (xs @ BlockInput iid ity il (Some v) ic it con # ys)) bv tmpl"
    unfolding b' b by (simp add: i_eq)
  moreover have "b = Block bid ty cat lbl ps
      (Some (xs @ BlockInput iid ity il iv ic it con # ys)) bv tmpl"
    by (simp add: b ins slots i_eq)
  ultimately show ?case
    using valueSetAt.here [OF before'] iid by simp
next
  case (Cons p path)
  obtain bid ty cat lbl ps ins bv tmpl where b: "b = Block bid ty cat lbl ps ins bv tmpl"
    by (cases b)
  from Cons.prems b obtain slots i child child' where ins: "ins = Some slots"
    and found: "List.find (hasId p) slots = Some i"
    and child: "connected i = Some child"
    and rec: "findAndUpdateInput v child slotId path = Some child'"
    and b': "b' = setInputs (Some (updateFirst (hasId p) (setConnected (Some child')) slots)) b"
    by (auto split: option.splits)
  from found obtain xs ys where slots: "slots = xs @ i # ys"
    and before: "\<forall>x \<in> set xs. \<not> hasId p x" and i: "hasId p i"
    by (rule find_split)
  obtain iid ity il iv ic it con where i_eq: "i = BlockInput iid ity il iv ic it con"
    by (cases i)
  from i i_eq have iid: "iid = p"
    by (simp add: hasId_def)
  from child i_eq have con: "con = Some child"
    by simp
  from before have before': "\<forall>x \<in> set xs. input_id x \<noteq> iid"
    by (simp add: hasId_def iid)
  have "updateFirst (hasId p) (setConnected (Some child')) slots
      = xs @ setConnected (Some child') i # ys"
    unfolding slots by (rule updateFirst_first [OF before i])
  then have "b' = Block bid ty cat lbl ps
      (Some (xs @ BlockInput iid ity il iv ic it (Some child') # ys)) bv tmpl"
    unfolding b' b by (simp add: i_eq)
  moreover have "b = Block bid ty cat lbl ps
      (Some (xs @ BlockInput iid ity il iv ic it (Some child) # ys)) bv tmpl"
    by (simp add: b ins slots i_eq con)
  ultimately show ?case
    using valueSetAt.below [OF before' Cons.IH [OF rec]] iid by simp
qed

lemma eraseSlots_append: "eraseSlots (xs @ ys) = eraseSlots xs @ eraseSlots ys"
proof (induction xs)
  case Nil
  then show ?case by simp
next
  case (Cons i xs)
  then show ?case
    by (cases i; cases "connected i") auto
qed

lemma valueSetAt_eraseValues:
  assumes "valueSetAt path slotId v b b'"
  shows "eraseValues b' = eraseValues b"
  using assms
proof (induction rule: valueSetAt.induct)
  case (here xs iid v bid ty cat lbl ps ity il iv ic it con ys bv tmpl)
  then show ?case
    by (cases con) (simp_all add: eraseSlots_append)
next
  case (below xs iid path slotId v child child' bid ty cat lbl ps ity il iv ic it ys bv tmpl)
  then show ?case
    by (simp add: eraseSlots_append)
qed

text \<open>
  Claim C8. When \<^verbatim>\<open>handleValueChange\<close> passes a block on, the tree it passes on is
  the tree it was given with the new value in the addressed slot and every other
  field of every block and slot as it was (\<open>valueSetAt\<close>); in particular the two
  trees are the same once the values of their slots are erased: the same blocks,
  connected in the same slots.
\<close>

theorem setValue_frame:
  assumes "handleValueChange True True b slotId v parentPath = Some b'"
  shows "valueSetAt (case parentPath of None \<Rightarrow> [] | Some path \<Rightarrow> path) slotId v b b' \<and>
    eraseValues b' = eraseValues b"
proof -
  have found: "findAndUpdateInput v b slotId (case parentPath of None \<Rightarrow> [] | Some path \<Rightarrow> path)
      = Some b'"
  proof (cases parentPath)
    case None
    with assms show ?thesis
      by (auto simp: handleValueChange_def split: option.splits)
  next
    case (Some path)
    with assms show ?thesis
      by (cases path) (auto simp: handleValueChange_def split: option.splits)
  qed
  then have "valueSetAt (case parentPath of None \<Rightarrow> [] | Some path \<Rightarrow> path) slotId v b b'"
    by (rule findAndUpdateInput_valueSetAt)
  then show ?thesis
    by (simp add: valueSetAt_eraseValues)
qed

text \<open>
  Setting the chain of the first child of an operator.
\<close>

theorem setValue_frame_witness:
  "handleValueChange True True exTree ''chain'' ''137'' (Some [''condition-1'']) = Some exTree137 \<and>
   valueSetAt [''condition-1''] ''chain'' ''137'' exTree exTree137 \<and>
   eraseValues exTree137 = eraseValues exTree"
proof -
  have run: "handleValueChange True True exTree ''chain'' ''137'' (Some [''condition-1''])
      = Some exTree137"
    by (simp add: handleValueChange_def exTree_def exTree137_def exTimeGt_def exTimeGt137_def
        growthSlot_def valueSlot_def hasId_def)
  from setValue_frame [OF run] run show ?thesis
    by simp
qed

section \<open>Detaching\<close>

lemma relabel_length: "length (relabel ins) = length ins"
  by (simp add: relabel_def)

lemma relabel_nth:
  assumes "k < length ins"
  shows "relabel ins ! k = setLabel (''Condition '' @ showNat (k + 1)) (ins ! k)"
  using assms by (simp add: relabel_def nth_enumerate_eq)

text \<open>
  Claim C7. Detaching the child of the first slot with the given id from an operator
  block passes on the block with a new input list: the slots that are still
  connected (the detached slot is not among them), in their order, the \<open>k\<close>-th with
  the label \<^verbatim>\<open>Condition k\<close> and otherwise as it was, and then one new empty slot.
\<close>

theorem detach_rebuilds:
  assumes "block_type b = Operator"
    and "inputs b = Some (xs @ s # ys)"
    and "input_id s = inputId"
    and "\<forall>x \<in> set xs. input_id x \<noteq> inputId"
  shows "\<exists>ins'.
    handleRemoveCondition True b now inputId = Some (setInputs (Some ins') b) \<and>
    (let kept = filter isConnected (xs @ ys) in
     length ins' = length kept + 1 \<and>
     (\<forall>k < length kept.
        input_label (ins' ! k) = ''Condition '' @ showNat (k + 1) \<and>
        ins' ! k = setLabel (input_label (ins' ! k)) (kept ! k)) \<and>
     ins' ! length kept = newSlot now \<and>
     connected (newSlot now) = None)"
proof -
  let ?kept = "filter isConnected (xs @ ys)"
  let ?ins' = "relabel ?kept @ [newSlot now]"
  from assms(3,4) have before: "\<forall>x \<in> set xs. \<not> hasId inputId x" and s: "hasId inputId s"
    by (simp_all add: hasId_def)
  have cleared: "updateFirst (hasId inputId) (setConnected None) (xs @ s # ys)
      = xs @ setConnected None s # ys"
    by (rule updateFirst_first [OF before s])
  have "filter isConnected (xs @ setConnected None s # ys) = ?kept"
    by (simp add: isConnected_def)
  with cleared assms(1,2)
  have run: "handleRemoveCondition True b now inputId = Some (setInputs (Some ?ins') b)"
    by (simp add: handleRemoveCondition_def Let_def)
  have "length ?ins' = length ?kept + 1"
    by (simp add: relabel_length)
  moreover have "\<forall>k < length ?kept.
        input_label (?ins' ! k) = ''Condition '' @ showNat (k + 1) \<and>
        ?ins' ! k = setLabel (input_label (?ins' ! k)) (?kept ! k)"
    by (simp add: nth_append relabel_length relabel_nth)
  moreover have "?ins' ! length ?kept = newSlot now"
    by (simp add: nth_append relabel_length)
  moreover have "connected (newSlot now) = None"
    by simp
  ultimately show ?thesis
    using run unfolding Let_def by blast
qed

text \<open>
  Detaching the first of two children.
\<close>

theorem detach_rebuilds_witness:
  "block_type exOperator = Operator \<and>
   inputs exOperator = Some ([]
     @ BlockInput ''condition-1'' [Condition, Operator] ''Condition 1'' None None None
         (Some exTimeGt)
     # [BlockInput ''condition-2'' [Condition, Operator] ''Condition 2'' None None None
          (Some exRpc),
        growthSlot ''condition-1700000000000'' None]) \<and>
   handleRemoveCondition True exOperator 1700000000999 ''condition-1'' = Some exOperatorDetached"
proof -
  let ?s = "BlockInput ''condition-1'' [Condition, Operator] ''Condition 1'' None None None
         (Some exTimeGt)"
  let ?ys = "[BlockInput ''condition-2'' [Condition, Operator] ''Condition 2'' None None None
          (Some exRpc),
        growthSlot ''condition-1700000000000'' None]"
  have h1: "block_type exOperator = Operator"
    by (simp add: exOperator_def)
  have h2: "inputs exOperator = Some ([] @ ?s # ?ys)"
    by (simp add: exOperator_def)
  have h3: "input_id ?s = ''condition-1''"
    by simp
  have h4: "\<forall>x \<in> set []. input_id x \<noteq> ''condition-1''"
    by simp
  have kept: "filter isConnected ([] @ ?ys) =
      [BlockInput ''condition-2'' [Condition, Operator] ''Condition 2'' None None None
          (Some exRpc)]"
    by (simp add: isConnected_def growthSlot_def)
  from detach_rebuilds [OF h1 h2 h3 h4, of 1700000000999] obtain ins' where
    run: "handleRemoveCondition True exOperator 1700000000999 ''condition-1''
        = Some (setInputs (Some ins') exOperator)"
    and len: "length ins' = 2"
    and first: "input_label (ins' ! 0) = ''Condition '' @ showNat 1"
      "ins' ! 0 = setLabel (input_label (ins' ! 0))
         (BlockInput ''condition-2'' [Condition, Operator] ''Condition 2'' None None None
            (Some exRpc))"
    and second: "ins' ! 1 = newSlot 1700000000999"
    unfolding Let_def kept by auto
  from len first second have "ins' =
      [BlockInput ''condition-2'' [Condition, Operator] ''Condition 1'' None None None (Some exRpc),
       newSlot 1700000000999]"
    by (cases ins'; cases "tl ins'") (auto simp: showNat_eval)
  with run have "handleRemoveCondition True exOperator 1700000000999 ''condition-1''
      = Some exOperatorDetached"
    by (simp add: exOperator_def exOperatorDetached_def newSlot_def growthSlot_def showNat_eval)
  with h1 h2 show ?thesis
    by simp
qed

section \<open>Attaching\<close>

lemma trailingEmpty_snoc:
  "trailingEmpty (ins @ [e]) = (if isConnected e then 0 else Suc (trailingEmpty ins))"
  by (simp add: trailingEmpty_def)

lemma mayGrow_iff:
  "mayGrow (props b) cnt \<longleftrightarrow> \<not> (\<exists>m. propOf maxInputs b = Some m \<and> m \<noteq> 0 \<and> m \<le> int cnt)"
  by (auto simp: mayGrow_def propOf_def split: option.splits)

lemma connectedCount_snoc:
  "connectedCount (xs @ [e]) = connectedCount xs + (if isConnected e then 1 else 0)"
  by (simp add: connectedCount_def)

text \<open>Growth after the last slot has been connected.\<close>

lemma grow_last:
  assumes "input_id e = inputId" and "isConnected e"
  shows "grow now inputId (props b) (xs @ [e]) =
    xs @ [e] @ (if \<exists>m. propOf maxInputs b = Some m \<and> m \<noteq> 0 \<and> m \<le> int (connectedCount xs) + 1
                then [] else [newSlot now])"
  using assms by (auto simp: grow_def connectedCount_snoc mayGrow_iff)

lemma trailingEmpty_grown:
  assumes "isConnected e"
  shows "trailingEmpty (xs @ [e] @ (if reached then [] else [newSlot now])) =
    (if reached then 0 else 1)"
proof -
  have "\<not> isConnected (newSlot now)"
    by (simp add: isConnected_def)
  with assms show ?thesis
    by (simp add: trailingEmpty_def)
qed

lemma dropOperator_last:
  assumes "inputs b = Some (xs @ [s])"
    and "input_id s = inputId"
    and "\<forall>x \<in> set xs. input_id x \<noteq> inputId"
  shows "dropOperator b now inputId item =
    Some (setInputs
      (Some (xs @ [setLabel (''Condition '' @ showNat (connectedCount xs + 1))
                    (setConnected (Some (droppedBlock item)) s)]
             @ (if \<exists>m. propOf maxInputs b = Some m \<and> m \<noteq> 0 \<and> m \<le> int (connectedCount xs) + 1
                then [] else [newSlot now])))
      b)"
proof -
  let ?c = "setConnected (Some (droppedBlock item)) s"
  let ?l = "setLabel (''Condition '' @ showNat (connectedCount xs + 1)) ?c"
  from assms(2,3) have before: "\<forall>x \<in> set xs. \<not> hasId inputId x" and s: "hasId inputId s"
    by (simp_all add: hasId_def)
  have found: "List.find (hasId inputId) (xs @ [s]) = Some s"
    using find_first [OF before s, of "[]"] by simp
  have ins1: "updateFirst (hasId inputId) (setConnected (Some (droppedBlock item))) (xs @ [s])
      = xs @ [?c]"
    using updateFirst_first [OF before s, of _ "[]"] by simp
  have c: "hasId inputId ?c" "isConnected ?c"
    using s by (simp_all add: hasId_def isConnected_def)
  have cnt: "connectedCount (xs @ [?c]) = connectedCount xs + 1"
    using c(2) by (simp add: connectedCount_snoc)
  have ins2: "updateFirst (hasId inputId) (setLabel (''Condition '' @ showNat (connectedCount xs + 1)))
      (xs @ [?c]) = xs @ [?l]"
    using updateFirst_first [OF before c(1), of _ "[]"] by simp
  have l: "input_id ?l = inputId" "isConnected ?l"
    using assms(2) by (simp_all add: isConnected_def)
  from assms(1) found show ?thesis
    unfolding dropOperator_def
    by (simp add: Let_def ins1 cnt ins2 grow_last [OF l] del: append.simps One_nat_def)
qed

lemma dropNested_last:
  assumes "inputs b = Some (pxs @ ps # pys)"
    and "input_id ps = pid"
    and "\<forall>x \<in> set pxs. input_id x \<noteq> pid"
    and "connected ps = Some child"
    and "block_type child = Operator"
    and "inputs child = Some (xs @ [s])"
    and "input_id s = inputId"
    and "\<forall>x \<in> set xs. input_id x \<noteq> inputId"
  shows "dropNested b now inputId item pid =
    Some (setInputs
      (Some (pxs @ setConnected (Some (setInputs
         (Some (xs @ [setConnected (Some (droppedBlock item)) s]
            @ (if \<exists>m. propOf maxInputs child = Some m \<and> m \<noteq> 0
                       \<and> m \<le> int (connectedCount xs) + 1
               then [] else [newSlot now])))
         child)) ps # pys))
      b)"
proof -
  let ?c = "setConnected (Some (droppedBlock item)) s"
  from assms(2,3) have pbefore: "\<forall>x \<in> set pxs. \<not> hasId pid x" and p: "hasId pid ps"
    by (simp_all add: hasId_def)
  from assms(7,8) have before: "\<forall>x \<in> set xs. \<not> hasId inputId x" and s: "hasId inputId s"
    by (simp_all add: hasId_def)
  have pfound: "List.find (hasId pid) (pxs @ ps # pys) = Some ps"
    by (rule find_first [OF pbefore p])
  have found: "List.find (hasId inputId) (xs @ [s]) = Some s"
    using find_first [OF before s, of "[]"] by simp
  have cins1: "updateFirst (hasId inputId) (setConnected (Some (droppedBlock item))) (xs @ [s])
      = xs @ [?c]"
    using updateFirst_first [OF before s, of _ "[]"] by simp
  have c: "input_id ?c = inputId" "isConnected ?c"
    using assms(7) by (simp_all add: isConnected_def)
  have pupd: "\<And>f. updateFirst (hasId pid) f (pxs @ ps # pys) = pxs @ f ps # pys"
    by (rule updateFirst_first [OF pbefore p])
  from assms(1,4,5,6) pfound found show ?thesis
    unfolding dropNested_def
    by (simp add: Let_def cins1 pupd grow_last [OF c] del: append.simps)
qed

text \<open>
  Claim C6. A block that is not a value block is dropped into the last slot of an
  operator block, at the root or one level down. The slot is connected to the copy
  of the dropped block. When \<^verbatim>\<open>maxInputs\<close> is set, not zero, and at most the count of
  connected slots after the drop, nothing is appended and the operator ends with
  the connected slot; otherwise one new empty slot is appended and the operator has
  exactly one empty slot at its end.
\<close>

theorem attach_growth:
  assumes "block_type item \<noteq> ValueBlock"
    and "block_type op = Operator"
    and "inputs op = Some (xs @ [s])"
    and "input_id s = inputId"
    and "\<forall>x \<in> set xs. input_id x \<noteq> inputId"
  shows
    "let reached = (\<exists>m. propOf maxInputs op = Some m \<and> m \<noteq> 0 \<and> m \<le> int (connectedCount xs) + 1);
         appended = (if reached then [] else [newSlot now])
     in (\<exists>s'. handleDrop True op now inputId item None =
                Some (setInputs (Some (xs @ [s'] @ appended)) op) \<and>
              input_id s' = inputId \<and> connected s' = Some (droppedBlock item) \<and>
              trailingEmpty (xs @ [s'] @ appended) = (if reached then 0 else 1)) \<and>
        (\<forall>b pid pxs ps pys.
           pid \<noteq> [] \<and> inputs b = Some (pxs @ ps # pys) \<and> input_id ps = pid \<and>
           (\<forall>x \<in> set pxs. input_id x \<noteq> pid) \<and> connected ps = Some op \<longrightarrow>
           (\<exists>s'. handleDrop True b now inputId item (Some pid) =
                   Some (setInputs
                     (Some (pxs @ setConnected
                        (Some (setInputs (Some (xs @ [s'] @ appended)) op)) ps # pys))
                     b) \<and>
                 input_id s' = inputId \<and> connected s' = Some (droppedBlock item) \<and>
                 trailingEmpty (xs @ [s'] @ appended) = (if reached then 0 else 1)))"
proof -
  define reached where
    "reached \<longleftrightarrow> (\<exists>m. propOf maxInputs op = Some m \<and> m \<noteq> 0 \<and> m \<le> int (connectedCount xs) + 1)"
  define appended where "appended = (if reached then [] else [newSlot now])"
  let ?c = "setConnected (Some (droppedBlock item)) s"
  let ?l = "setLabel (''Condition '' @ showNat (connectedCount xs + 1)) ?c"
  have root: "handleDrop True op now inputId item None =
      Some (setInputs (Some (xs @ [?l] @ appended)) op)"
    using assms(1,2) dropOperator_last [OF assms(3,4,5), of now item]
    unfolding appended_def reached_def
    by (simp add: handleDrop_def truthyStr_def)
  have "isConnected ?l"
    by (simp add: isConnected_def)
  then have root_trailing: "trailingEmpty (xs @ [?l] @ appended) = (if reached then 0 else 1)"
    unfolding appended_def by (rule trailingEmpty_grown)
  have first: "\<exists>s'. handleDrop True op now inputId item None =
                Some (setInputs (Some (xs @ [s'] @ appended)) op) \<and>
              input_id s' = inputId \<and> connected s' = Some (droppedBlock item) \<and>
              trailingEmpty (xs @ [s'] @ appended) = (if reached then 0 else 1)"
    using root root_trailing assms(4) by (intro exI [of _ ?l]) simp
  have "isConnected ?c"
    by (simp add: isConnected_def)
  then have nested_trailing: "trailingEmpty (xs @ [?c] @ appended) = (if reached then 0 else 1)"
    unfolding appended_def by (rule trailingEmpty_grown)
  have second: "\<exists>s'. handleDrop True b now inputId item (Some pid) =
                   Some (setInputs
                     (Some (pxs @ setConnected
                        (Some (setInputs (Some (xs @ [s'] @ appended)) op)) ps # pys))
                     b) \<and>
                 input_id s' = inputId \<and> connected s' = Some (droppedBlock item) \<and>
                 trailingEmpty (xs @ [s'] @ appended) = (if reached then 0 else 1)"
    if "pid \<noteq> []" and "inputs b = Some (pxs @ ps # pys)" and "input_id ps = pid"
      and "\<forall>x \<in> set pxs. input_id x \<noteq> pid" and "connected ps = Some op"
    for b pid pxs ps pys
  proof -
    have "handleDrop True b now inputId item (Some pid) =
        Some (setInputs
          (Some (pxs @ setConnected
             (Some (setInputs (Some (xs @ [?c] @ appended)) op)) ps # pys))
          b)"
      using assms(1) that(1)
        dropNested_last [OF that(2,3,4,5) assms(2,3,4,5), of now item]
      unfolding appended_def reached_def
      by (simp add: handleDrop_def truthyStr_def)
    with nested_trailing assms(4) show ?thesis
      by (intro exI [of _ ?c]) simp
  qed
  from first second show ?thesis
    unfolding Let_def reached_def [symmetric] appended_def [symmetric] by blast
qed

text \<open>
  Filling the last slot of an operator with two children and \<^verbatim>\<open>maxInputs\<close> 4.
\<close>

theorem attach_growth_witness:
  "block_type exTemplate \<noteq> ValueBlock \<and> block_type exOperator = Operator \<and>
   input_id (last (the (inputs exOperator))) = ''condition-1700000000000'' \<and>
   propOf maxInputs exOperator = Some 4 \<and>
   connectedCount (butlast (the (inputs exOperator))) = 2 \<and>
   handleDrop True exOperator 1700000000999 ''condition-1700000000000'' exTemplate None =
     Some exOperatorGrown \<and>
   trailingEmpty (the (inputs exOperatorGrown)) = 1"
proof -
  let ?xs = "[BlockInput ''condition-1'' [Condition, Operator] ''Condition 1'' None None None
                (Some exTimeGt),
              BlockInput ''condition-2'' [Condition, Operator] ''Condition 2'' None None None
                (Some exRpc)]"
  let ?s = "growthSlot ''condition-1700000000000'' None"
  have h1: "block_type exTemplate \<noteq> ValueBlock"
    by (simp add: exTemplate_def)
  have h2: "block_type exOperator = Operator"
    by (simp add: exOperator_def)
  have h3: "inputs exOperator = Some (?xs @ [?s])"
    by (simp add: exOperator_def)
  have h4: "input_id ?s = ''condition-1700000000000''"
    by (simp add: growthSlot_def)
  have h5: "\<forall>x \<in> set ?xs. input_id x \<noteq> ''condition-1700000000000''"
    by simp
  have m: "propOf maxInputs exOperator = Some 4"
    by (simp add: exOperator_def propOf_def emptyProperties_def)
  have cnt: "connectedCount ?xs = 2"
    by (simp add: connectedCount_def isConnected_def)
  have run: "handleDrop True exOperator 1700000000999 ''condition-1700000000000'' exTemplate None
      = Some exOperatorGrown"
    by (simp add: handleDrop_def dropOperator_def exOperator_def exOperatorGrown_def
        exTemplate_def exDropped_def droppedBlock_def initInput_def grow_def mayGrow_def
        connectedCount_def isConnected_def newSlot_def growthSlot_def hasId_def
        emptyProperties_def js_defs Let_def showNat_eval)
  from attach_growth [OF h1 h2 h3 h4 h5, of 1700000000999] m cnt
  obtain s' where
    "handleDrop True exOperator 1700000000999 ''condition-1700000000000'' exTemplate None =
       Some (setInputs (Some (?xs @ [s'] @ [newSlot 1700000000999])) exOperator)"
    and "trailingEmpty (?xs @ [s'] @ [newSlot 1700000000999]) = 1"
    unfolding Let_def by auto
  with run have grown: "exOperatorGrown =
      setInputs (Some (?xs @ [s'] @ [newSlot 1700000000999])) exOperator"
    by simp
  have "inputs (setInputs (Some (?xs @ [s'] @ [newSlot 1700000000999])) exOperator)
      = Some (?xs @ [s'] @ [newSlot 1700000000999])"
    by (cases exOperator) simp
  with grown \<open>trailingEmpty (?xs @ [s'] @ [newSlot 1700000000999]) = 1\<close>
  have "trailingEmpty (the (inputs exOperatorGrown)) = 1"
    by simp
  with h1 h2 h3 h4 m cnt run show ?thesis
    by simp
qed

section \<open>Printing and reading back a number\<close>









section \<open>Adding a parameter\<close>








end
